theory Spec2Isabelle
  imports Complex_Main "HOL-Library.Sublist"
begin

section \<open>JavaScript strings\<close>

text \<open>
  A JavaScript string is a sequence of UTF-16 code units. A code unit is modelled as a
  natural number, a string as a list of them; \<open>js\<close> turns an ASCII literal into
  its code units.
\<close>

type_synonym jsstring = "nat list"

definition js :: "string \<Rightarrow> jsstring" where
  "js s = map of_char s"

text \<open>
  \<open>String.prototype.indexOf\<close>: the index of the first occurrence of the search
  string. \<open>String.prototype.includes\<close> is the library's \<open>sublist\<close>.
\<close>

fun indexOf :: "jsstring \<Rightarrow> jsstring \<Rightarrow> nat option" where
  "indexOf p [] = (if p = [] then Some 0 else None)"
| "indexOf p (c # cs) =
     (if prefix p (c # cs) then Some 0 else map_option Suc (indexOf p cs))"

text \<open>
  \<open>GetSubstitution\<close> for a string pattern (no captures): in the replacement text
  \<open>$$\<close> stands for a dollar sign, \<open>$&\<close> for the matched text, \<open>$`\<close> for the
  text before the match and \<open>$'\<close> for the text after it; any other \<open>$\<close> is
  literal.
\<close>

fun getSubstitution :: "jsstring \<Rightarrow> jsstring \<Rightarrow> jsstring \<Rightarrow> jsstring \<Rightarrow> jsstring" where
  "getSubstitution m b a [] = []"
| "getSubstitution m b a [c] = [c]"
| "getSubstitution m b a (c # d # r) =
     (if c = 36 then
        (if d = 36 then 36 # getSubstitution m b a r
         else if d = 38 then m @ getSubstitution m b a r
         else if d = 96 then b @ getSubstitution m b a r
         else if d = 39 then a @ getSubstitution m b a r
         else c # getSubstitution m b a (d # r))
      else c # getSubstitution m b a (d # r))"

text \<open>
  \<open>subject.replace(pattern, replacement)\<close> with a string pattern: only the first
  occurrence is replaced; without one the subject is returned as it is.
\<close>

definition replace_first :: "jsstring \<Rightarrow> jsstring \<Rightarrow> jsstring \<Rightarrow> jsstring" where
  "replace_first p r s =
     (case indexOf p s of
        None \<Rightarrow> s
      | Some i \<Rightarrow>
          take i s @ getSubstitution p (take i s) (drop (i + length p) s) r
            @ drop (i + length p) s)"

section \<open>Regular expressions\<close>

text \<open>
  The regular expressions of the converter are sequences of single characters, character
  classes, greedy and lazy stars over a class, and one capture group. All of them carry
  the flag \<open>i\<close>. \<open>canonicalize\<close> is the case folding of a non-Unicode pattern: ASCII
  lower case letters map to upper case; a code unit from 128 on never folds to an ASCII
  one, so against the ASCII literals of these patterns it stands for itself.
\<close>

definition canonicalize :: "nat \<Rightarrow> nat" where
  "canonicalize c = (if 97 \<le> c \<and> c \<le> 122 then c - 32 else c)"

text \<open>The class \<open>\s\<close>: white space and line terminators of ECMAScript.\<close>

definition is_space :: "nat \<Rightarrow> bool" where
  "is_space c \<longleftrightarrow>
     c \<in> {9, 10, 11, 12, 13, 32, 160, 5760, 8232, 8233, 8239, 8287, 12288, 65279}
     \<or> (8192 \<le> c \<and> c \<le> 8202)"

datatype cls =
    Lit nat
  | NoneOf "nat list"
  | OneOf "nat list"
  | Space
  | AnyChar

fun cmatch :: "cls \<Rightarrow> nat \<Rightarrow> bool" where
  "cmatch (Lit l) c = (canonicalize c = canonicalize l)"
| "cmatch (NoneOf ls) c = (c \<notin> set ls)"
| "cmatch (OneOf ls) c = (c \<in> set ls)"
| "cmatch Space c = is_space c"
| "cmatch AnyChar c = True"

datatype tok =
    One cls
  | Star cls
  | LazyStar cls
  | GroupOpen
  | GroupClose

definition lits :: "string \<Rightarrow> tok list" where
  "lits s = map (\<lambda>c. One (Lit (of_char c))) s"

text \<open>
  The backtracking matcher. \<open>bt p i gs ge s\<close> matches the pattern \<open>p\<close> against the
  input \<open>s\<close>, where \<open>i\<close> characters of the match have been consumed and the group
  was opened at offset \<open>gs\<close> and closed at offset \<open>ge\<close>. It returns the first
  match in the priority order of the backtracking: a greedy star tries one more character
  before it tries the rest of the pattern, a lazy star the rest of the pattern first. The
  result is the length of the match and the offsets of the group.
\<close>

fun bt :: "tok list \<Rightarrow> nat \<Rightarrow> nat \<Rightarrow> nat \<Rightarrow> jsstring \<Rightarrow> (nat \<times> nat \<times> nat) option" where
  "bt [] i gs ge s = Some (i, gs, ge)"
| "bt (One c # ts) i gs ge [] = None"
| "bt (One c # ts) i gs ge (x # xs) =
     (if cmatch c x then bt ts (Suc i) gs ge xs else None)"
| "bt (Star c # ts) i gs ge [] = bt ts i gs ge []"
| "bt (Star c # ts) i gs ge (x # xs) =
     (if cmatch c x then
        (case bt (Star c # ts) (Suc i) gs ge xs of
           Some r \<Rightarrow> Some r
         | None \<Rightarrow> bt ts i gs ge (x # xs))
      else bt ts i gs ge (x # xs))"
| "bt (LazyStar c # ts) i gs ge [] = bt ts i gs ge []"
| "bt (LazyStar c # ts) i gs ge (x # xs) =
     (case bt ts i gs ge (x # xs) of
        Some r \<Rightarrow> Some r
      | None \<Rightarrow> (if cmatch c x then bt (LazyStar c # ts) (Suc i) gs ge xs else None))"
| "bt (GroupOpen # ts) i gs ge s = bt ts i i ge s"
| "bt (GroupClose # ts) i gs ge s = bt ts i gs i s"

text \<open>A match of the pattern that starts at the head of the input.\<close>

definition match_here :: "tok list \<Rightarrow> jsstring \<Rightarrow> (nat \<times> nat \<times> nat) option" where
  "match_here p s = bt p 0 0 0 s"

text \<open>\<open>RegExp.prototype.test\<close>: is there a match at some start position.\<close>

fun regex_test :: "tok list \<Rightarrow> jsstring \<Rightarrow> bool" where
  "regex_test p [] = (match_here p [] \<noteq> None)"
| "regex_test p (c # cs) = (match_here p (c # cs) \<noteq> None \<or> regex_test p cs)"

text \<open>
  \<open>subject.replace(regex, callback)\<close> with the flag \<open>g\<close>: the matches are found
  from left to right, each search starting where the last match ended (one character
  further after an empty match). The callback gets the matched text and the text of the
  group; what it returns replaces the match.
\<close>

function replace_global ::
  "tok list \<Rightarrow> (jsstring \<Rightarrow> jsstring \<Rightarrow> jsstring) \<Rightarrow> jsstring \<Rightarrow> jsstring" where
  "replace_global p f [] =
     (case match_here p [] of
        None \<Rightarrow> []
      | Some (e, gs, ge) \<Rightarrow> f [] [])"
| "replace_global p f (c # cs) =
     (case match_here p (c # cs) of
        None \<Rightarrow> c # replace_global p f cs
      | Some (e, gs, ge) \<Rightarrow>
          f (take e (c # cs)) (take (ge - gs) (drop gs (c # cs)))
            @ (if e = 0 then c # replace_global p f cs
               else replace_global p f (drop e (c # cs))))"
  by pat_completeness auto
termination
  by (relation "measure (\<lambda>(p, f, s). length s)") auto

text \<open>
  \<open>subject.match(regex)\<close> with the flag \<open>g\<close>: the matches in the order of the
  search (JavaScript gives \<open>null\<close> for the empty list). Each match is kept with the
  text of its group.
\<close>

function match_all :: "tok list \<Rightarrow> jsstring \<Rightarrow> (jsstring \<times> jsstring) list" where
  "match_all p [] =
     (case match_here p [] of
        None \<Rightarrow> []
      | Some (e, gs, ge) \<Rightarrow> [([], [])])"
| "match_all p (c # cs) =
     (case match_here p (c # cs) of
        None \<Rightarrow> match_all p cs
      | Some (e, gs, ge) \<Rightarrow>
          (take e (c # cs), take (ge - gs) (drop gs (c # cs)))
            # (if e = 0 then match_all p cs else match_all p (drop e (c # cs))))"
  by pat_completeness auto
termination
  by (relation "measure (\<lambda>(p, s). length s)") auto

section \<open>The code-block rendering step\<close>

text \<open>The pattern \<open>/<pre><code>([\s\S]*?)<\/code><\/pre>/gi\<close>.\<close>

definition codeBlockPattern :: "tok list" where
  "codeBlockPattern =
     lits ''<pre><code>'' @ [GroupOpen, LazyStar AnyChar, GroupClose] @ lits ''</code></pre>''"

definition renderedHTML :: "jsstring \<Rightarrow> jsstring" where
  \<open>renderedHTML codeContent =
     js ''\<newline>                <div style="border: 1px solid #ddd; padding: 10px; margin: 10px 0; background-color: #f9f9f9;">\<newline>''
     @ js ''                    <div style="font-weight: bold; margin-bottom: 5px; color: #666;">Rendered HTML Preview:</div>\<newline>''
     @ js ''                    <div>'' @ codeContent @ js ''</div>\<newline>''
     @ js ''                </div>''\<close>

definition looksLikeHTML :: "jsstring \<Rightarrow> bool" where
  "looksLikeHTML codeContent \<longleftrightarrow> sublist (js ''<'') codeContent \<and> sublist (js ''>'') codeContent"

definition codeBlockCallback :: "jsstring \<Rightarrow> jsstring \<Rightarrow> jsstring" where
  "codeBlockCallback m codeContent =
     (if looksLikeHTML codeContent then m @ renderedHTML codeContent else m)"

definition renderHTMLCodeBlocks :: "jsstring \<Rightarrow> jsstring" where
  "renderHTMLCodeBlocks htmlContent = replace_global codeBlockPattern codeBlockCallback htmlContent"

section \<open>The wrapper-fix step\<close>

text \<open>The two characters of the class \<open>["']\<close>: the double and the single quote.\<close>

definition quoteChars :: "nat list" where
  "quoteChars = [34, 39]"

text \<open>
  The inner div of both patterns, the part in the capture group:
  \<open><div[^>]*style\s*=\s*["'][^"']*margin\s*:\s*[^"']*auto[^"']*["'][^>]*>[\s\S]*?<\/div>\<close>.
\<close>

definition innerDivPattern :: "tok list" where
  "innerDivPattern =
     lits ''<div'' @ [Star (NoneOf (js ''>''))] @ lits ''style'' @ [Star Space] @ lits ''=''
     @ [Star Space, One (OneOf quoteChars), Star (NoneOf quoteChars)] @ lits ''margin''
     @ [Star Space] @ lits '':'' @ [Star Space, Star (NoneOf quoteChars)] @ lits ''auto''
     @ [Star (NoneOf quoteChars), One (OneOf quoteChars), Star (NoneOf (js ''>''))] @ lits ''>''
     @ [LazyStar AnyChar] @ lits ''</div>''"

text \<open>
  \<open>centeringPattern\<close>: a div with the class \<open>content\<close> around the inner div,
  \<open><div[^>]*class\s*=\s*["']content["'][^>]*>\s*(...)\s*<\/div>\<close> with the flags \<open>gi\<close>.
\<close>

definition centeringPattern :: "tok list" where
  "centeringPattern =
     lits ''<div'' @ [Star (NoneOf (js ''>''))] @ lits ''class'' @ [Star Space] @ lits ''=''
     @ [Star Space, One (OneOf quoteChars)] @ lits ''content''
     @ [One (OneOf quoteChars), Star (NoneOf (js ''>''))] @ lits ''>''
     @ [Star Space, GroupOpen] @ innerDivPattern @ [GroupClose, Star Space] @ lits ''</div>''"

text \<open>
  \<open>generalCenteringPattern\<close>: any div around the inner div,
  \<open><div[^>]*>\s*(...)\s*<\/div>\<close> with the flags \<open>gi\<close>.
\<close>

definition generalCenteringPattern :: "tok list" where
  "generalCenteringPattern =
     lits ''<div'' @ [Star (NoneOf (js ''>''))] @ lits ''>''
     @ [Star Space, GroupOpen] @ innerDivPattern @ [GroupClose, Star Space] @ lits ''</div>''"

text \<open>
  \<open>s.replace(/<\/div>$/, '')\<close>: the pattern has no flag, so it is case sensitive and
  \<open>$\<close> is the end of the string: a closing tag at the very end is removed.
\<close>

definition stripTrailingDiv :: "jsstring \<Rightarrow> jsstring" where
  "stripTrailingDiv s =
     (if suffix (js ''</div>'') s then take (length s - length (js ''</div>'')) s else s)"

definition wrapperDiv :: "jsstring \<Rightarrow> jsstring \<Rightarrow> jsstring" where
  "wrapperDiv m innerDiv = stripTrailingDiv (replace_first innerDiv [] m)"

definition hasMinimalStyling :: "jsstring \<Rightarrow> bool" where
  \<open>hasMinimalStyling w \<longleftrightarrow>
     \<not> sublist (js ''style='') w
     \<or> sublist (js ''style=""'') w
     \<or> sublist (js ''style='' @ [39, 39]) w\<close>

definition hasCenteringStyles :: "jsstring \<Rightarrow> bool" where
  "hasCenteringStyles innerDiv \<longleftrightarrow>
     sublist (js ''margin:'') innerDiv
     \<and> (sublist (js ''auto'') innerDiv \<or> sublist (js ''center'') innerDiv)"

definition generalCallback :: "jsstring \<Rightarrow> jsstring \<Rightarrow> jsstring" where
  "generalCallback m innerDiv =
     (if hasMinimalStyling (wrapperDiv m innerDiv) \<and> hasCenteringStyles innerDiv
      then innerDiv else m)"

text \<open>The replacement \<open>'$1'\<close> of the first pass is the text of the capture group.\<close>

definition firstGroup :: "jsstring \<Rightarrow> jsstring \<Rightarrow> jsstring" where
  "firstGroup m innerDiv = innerDiv"

text \<open>
  The two passes of \<open>fixCenteringIssues\<close>: the first replaces every match of the
  pattern with the class \<open>content\<close> by its inner div, the second runs the callback on
  every match of the general pattern.
\<close>

definition fixContentWrappers :: "jsstring \<Rightarrow> jsstring" where
  "fixContentWrappers htmlContent =
     (if regex_test centeringPattern htmlContent
      then replace_global centeringPattern firstGroup htmlContent
      else htmlContent)"

definition fixGeneralWrappers :: "jsstring \<Rightarrow> jsstring" where
  "fixGeneralWrappers fixedContent =
     (if match_all generalCenteringPattern fixedContent \<noteq> []
      then replace_global generalCenteringPattern generalCallback fixedContent
      else fixedContent)"

definition fixCenteringIssues :: "jsstring \<Rightarrow> jsstring" where
  "fixCenteringIssues htmlContent = fixGeneralWrappers (fixContentWrappers htmlContent)"

section \<open>The generated style block\<close>

text \<open>
  The settings of a conversion. The standalone module and the browser extension share the
  page size, the orientation and the margin; the module adds two switches (its
  \<open>config\<close>), the extension a file name (its \<open>settings\<close>, below). The margin is a
  whole number of millimetres, as \<open>parseInt\<close> gives it; it is printed in decimal
  (below \<open>10^21\<close>, where JavaScript does the same).
\<close>

record pageSettings =
  pageSize :: jsstring
  orientation :: jsstring
  margin :: int

record config = pageSettings +
  includeFonts :: bool
  renderCodeBlocks :: bool

function digits :: "nat \<Rightarrow> jsstring" where
  "digits n = (if n < 10 then [48 + n] else digits (n div 10) @ [48 + n mod 10])"
  by pat_completeness auto
termination
  by (relation "measure id") auto

definition numberToString :: "int \<Rightarrow> jsstring" where
  "numberToString n = (if n < 0 then 45 # digits (nat (- n)) else digits (nat n))"

text \<open>
  The template of \<open>generateCSS\<close> is cut at its interpolations: the font import, the
  font family (three times) and the margin (twice). The parts between them are fixed text.
\<close>

definition css_part1 :: jsstring where
  \<open>css_part1 =
     js (''\<newline>'' @
       ''    <style>\<newline>'' @
       ''        /* Import Liberation Serif font from Google Fonts if enabled */\<newline>'' @
       ''        /* This font provides excellent readability and professional appearance */\<newline>'' @
       ''        '')\<close>

definition css_part2 :: jsstring where
  \<open>css_part2 =
     js (''\<newline>'' @
       ''        \<newline>'' @
       ''        /* Base styles for the document body */\<newline>'' @
       ''        /* These styles establish the foundation for all content */\<newline>'' @
       ''        body {\<newline>'' @
       ''            font-family: '')\<close>

definition css_part3 :: jsstring where
  \<open>css_part3 =
     js ('' !important;\<newline>'' @
       ''            font-size: 12pt; /* Standard document font size */\<newline>'' @
       ''            line-height: 1.4; /* Comfortable reading line height */\<newline>'' @
       ''            margin: '')\<close>

definition css_part4 :: jsstring where
  \<open>css_part4 =
     js (''mm; /* Apply configured margins */\<newline>'' @
       ''            color: #333; /* Dark gray for good readability */\<newline>'' @
       ''            background: white; /* Clean white background */\<newline>'' @
       ''        }\<newline>'' @
       ''        \<newline>'' @
       ''        /* Heading styles with proper hierarchy and spacing */\<newline>'' @
       ''        /* Headings use the same font family for consistency */\<newline>'' @
       ''        h1, h2, h3, h4, h5, h6 {\<newline>'' @
       ''            font-family: '')\<close>

definition css_part5 :: jsstring where
  \<open>css_part5 =
     js ('' !important;\<newline>'' @
       ''            color: #000000 !important; /* Pure black for headings - no blue tint */\<newline>'' @
       ''            background: none !important; /* Remove any background gradients */\<newline>'' @
       ''            border: none !important; /* Remove any borders */\<newline>'' @
       ''            text-decoration: none !important; /* Remove any underlines */\<newline>'' @
       ''            box-shadow: none !important; /* Remove any shadows */\<newline>'' @
       ''            margin-top: 1.5em; /* Generous top margin */\<newline>'' @
       ''            margin-bottom: 0.5em; /* Tighter bottom margin */\<newline>'' @
       ''            page-break-after: avoid; /* Prevent headings from being orphaned at page breaks */\<newline>'' @
       ''        }\<newline>'' @
       ''        \<newline>'' @
       ''        /* Specific heading sizes for clear hierarchy */\<newline>'' @
       ''        h1 { font-size: 24pt; } /* Main title */\<newline>'' @
       ''        h2 { font-size: 20pt; } /* Section headers */\<newline>'' @
       ''        h3 { font-size: 16pt; } /* Subsection headers */\<newline>'' @
       ''        \<newline>'' @
       ''        /* Apply consistent font family to all text elements */\<newline>'' @
       ''        /* This ensures typography consistency throughout the document */\<newline>'' @
       ''        p, div, span, li, td, th {\<newline>'' @
       ''            font-family: '')\<close>

definition css_part6 :: jsstring where
  \<open>css_part6 =
     js ('' !important;\<newline>'' @
       ''        }\<newline>'' @
       ''        \<newline>'' @
       ''        /* Code blocks styling for technical content */\<newline>'' @
       ''        /* Uses monospace font for code readability */\<newline>'' @
       ''        pre, code {\<newline>'' @
       ''            font-family: 'Courier New', 'Consolas', 'Monaco', monospace !important;\<newline>'' @
       ''            background-color: #f8f9fa; /* Light gray background */\<newline>'' @
       ''            padding: 8px; /* Internal spacing */\<newline>'' @
       ''            border-radius: 4px; /* Rounded corners */\<newline>'' @
       ''            border: 1px solid #e9ecef; /* Subtle border */\<newline>'' @
       ''            white-space: pre-wrap; /* Preserve whitespace and wrap long lines */\<newline>'' @
       ''            word-wrap: break-word; /* Break long words to prevent overflow */\<newline>'' @
       ''        }\<newline>'' @
       ''        \<newline>'' @
       ''        /* Table styles for data presentation */\<newline>'' @
       ''        /* Ensures tables are well-formatted and readable */\<newline>'' @
       ''        table {\<newline>'' @
       ''            border-collapse: collapse; /* Remove spacing between cells */\<newline>'' @
       ''            width: 100%; /* Full width tables */\<newline>'' @
       ''            margin: 1em 0; /* Vertical spacing around tables */\<newline>'' @
       ''            page-break-inside: avoid; /* Keep tables together on same page */\<newline>'' @
       ''        }\<newline>'' @
       ''        \<newline>'' @
       ''        /* Table cell styling */\<newline>'' @
       ''        th, td {\<newline>'' @
       ''            border: 1px solid #ddd; /* Light gray borders */\<newline>'' @
       ''            padding: 8px; /* Cell padding */\<newline>'' @
       ''            text-align: left; /* Left-aligned text */\<newline>'' @
       ''        }\<newline>'' @
       ''        \<newline>'' @
       ''        /* Table header styling */\<newline>'' @
       ''        th {\<newline>'' @
       ''            background-color: #f8f9fa; /* Light background for headers */\<newline>'' @
       ''            font-weight: bold; /* Bold text for headers */\<newline>'' @
       ''        }\<newline>'' @
       ''        \<newline>'' @
       ''        /* Image styling for media content */\<newline>'' @
       ''        /* Ensures images scale properly and don't break across pages */\<newline>'' @
       ''        img {\<newline>'' @
       ''            max-width: 100%; /* Prevent images from overflowing */\<newline>'' @
       ''            height: auto; /* Maintain aspect ratio */\<newline>'' @
       ''            page-break-inside: avoid; /* Keep images with their content */\<newline>'' @
       ''        }\<newline>'' @
       ''        \<newline>'' @
       ''        /* List styling for organized content */\<newline>'' @
       ''        /* Provides proper indentation and spacing for lists */\<newline>'' @
       ''        ul, ol {\<newline>'' @
       ''            margin: 1em 0; /* Vertical spacing around lists */\<newline>'' @
       ''            padding-left: 2em; /* Indent list items */\<newline>'' @
       ''        }\<newline>'' @
       ''        \<newline>'' @
       ''        /* List item styling */\<newline>'' @
       ''        li {\<newline>'' @
       ''            margin: 0.5em 0; /* Spacing between list items */\<newline>'' @
       ''        }\<newline>'' @
       ''        \<newline>'' @
       ''        /* Blockquote styling for citations and quotes */\<newline>'' @
       ''        /* Provides visual distinction for quoted content */\<newline>'' @
       ''        blockquote {\<newline>'' @
       ''            border-left: 4px solid #007bff; /* Blue left border */\<newline>'' @
       ''            margin: 1em 0; /* Vertical spacing */\<newline>'' @
       ''            padding-left: 1em; /* Left padding for content */\<newline>'' @
       ''            font-style: italic; /* Italic text for quotes */\<newline>'' @
       ''            color: #666; /* Gray color for subtle appearance */\<newline>'' @
       ''        }\<newline>'' @
       ''        \<newline>'' @
       ''        /* Page break controls for layout management */\<newline>'' @
       ''        /* These classes can be used in HTML to control page breaks */\<newline>'' @
       ''        .page-break {\<newline>'' @
       ''            page-break-before: always; /* Force page break before element */\<newline>'' @
       ''        }\<newline>'' @
       ''        \<newline>'' @
       ''        .no-break {\<newline>'' @
       ''            page-break-inside: avoid; /* Prevent element from breaking across pages */\<newline>'' @
       ''        }\<newline>'' @
       ''        \<newline>'' @
       ''        /* Print-specific styles for PDF optimization */\<newline>'' @
       ''        /* These styles ensure optimal rendering in PDF format */\<newline>'' @
       ''        @media print {\<newline>'' @
       ''            body {\<newline>'' @
       ''                margin: 0; /* Remove body margins for print */\<newline>'' @
       ''                padding: '')\<close>

definition css_part7 :: jsstring where
  \<open>css_part7 =
     js (''mm; /* Apply margins as padding */\<newline>'' @
       ''            }\<newline>'' @
       ''            \<newline>'' @
       ''            /* Ensure good contrast and color accuracy for printing */\<newline>'' @
       ''            /* This is crucial for PDF generation quality */\<newline>'' @
       ''            * {\<newline>'' @
       ''                -webkit-print-color-adjust: exact !important;\<newline>'' @
       ''                color-adjust: exact !important;\<newline>'' @
       ''            }\<newline>'' @
       ''        }\<newline>'' @
       ''    </style>'')\<close>

definition fontImport :: "config \<Rightarrow> jsstring" where
  \<open>fontImport config =
     (if includeFonts config
      then js (''\<newline>'' @
        ''        @import url('https://fonts.googleapis.com/css2?family=Liberation+Serif:ital,wght@0,400;0,700;1,400;1,700&display=swap');\<newline>'' @
        ''        '')
      else [])\<close>

definition fontFamily :: "config \<Rightarrow> jsstring" where
  \<open>fontFamily config =
     (if includeFonts config
      then js '''Liberation Serif', 'Times New Roman', 'Georgia', serif''
      else js '''Times New Roman', 'Georgia', serif'')\<close>

definition generateCSS :: "config \<Rightarrow> jsstring" where
  "generateCSS config =
     css_part1 @ fontImport config
     @ css_part2 @ fontFamily config
     @ css_part3 @ numberToString (margin config)
     @ css_part4 @ fontFamily config
     @ css_part5 @ fontFamily config
     @ css_part6 @ numberToString (margin config)
     @ css_part7"

section \<open>The HTML preprocessor\<close>

definition hasHTML :: "jsstring \<Rightarrow> bool" where
  "hasHTML s = regex_test (lits ''<html'' @ [Star (NoneOf (js ''>''))] @ lits ''>'') s"

definition hasHead :: "jsstring \<Rightarrow> bool" where
  "hasHead s = regex_test (lits ''<head'' @ [Star (NoneOf (js ''>''))] @ lits ''>'') s"

definition hasBody :: "jsstring \<Rightarrow> bool" where
  "hasBody s = regex_test (lits ''<body'' @ [Star (NoneOf (js ''>''))] @ lits ''>'') s"

definition shellHead :: jsstring where
  \<open>shellHead =
     js (''<!DOCTYPE html>\<newline>'' @
       ''<html lang="en">\<newline>'' @
       ''<head>\<newline>'' @
       ''    <meta charset="UTF-8">\<newline>'' @
       ''    <meta name="viewport" content="width=device-width, initial-scale=1.0">\<newline>'' @
       ''    <title>HTML to PDF</title>\<newline>'' @
       ''    '')\<close>

definition shellBody :: jsstring where
  \<open>shellBody =
     js (''\<newline>'' @
       ''</head>\<newline>'' @
       ''<body>\<newline>'' @
       ''    '')\<close>

definition shellEnd :: jsstring where
  \<open>shellEnd =
     js (''\<newline>'' @
       ''</body>\<newline>'' @
       ''</html>'')\<close>

text \<open>
  The shell detection and style injection of \<open>processHTMLContent\<close>: a document that
  lacks one of the three tags is wrapped in a full document; in a complete one the style
  block is put before the first \<open></head>\<close>.
\<close>

definition injectStyles :: "jsstring \<Rightarrow> config \<Rightarrow> jsstring" where
  "injectStyles htmlContent config =
     (if \<not> hasHTML htmlContent \<or> \<not> hasHead htmlContent \<or> \<not> hasBody htmlContent
      then shellHead @ generateCSS config @ shellBody @ htmlContent @ shellEnd
      else replace_first (js ''</head>'') (generateCSS config @ js ''\<newline></head>'') htmlContent)"

definition processHTMLContent :: "jsstring \<Rightarrow> config \<Rightarrow> jsstring" where
  "processHTMLContent htmlContent config =
     (let processedHTML = injectStyles (fixCenteringIssues htmlContent) config
      in if renderCodeBlocks config then renderHTMLCodeBlocks processedHTML else processedHTML)"

section \<open>The document shell of the browser extension\<close>

text \<open>
  \<open>createCompleteHTMLDocument\<close> of the popup makes the same test for the three tags.
  Its two templates are cut at the margin; the shell is cut once more in front of its
  \<open></head>\<close>.
\<close>

record settings = pageSettings +
  filename :: jsstring

definition injectedStyle_part1 :: jsstring where
  \<open>injectedStyle_part1 =
     js (''\<newline>'' @
       ''                <style>\<newline>'' @
       ''                    body {\<newline>'' @
       ''                        font-family: 'Liberation Serif', 'Times New Roman', 'Georgia', serif !important;\<newline>'' @
       ''                        font-size: 12pt;\<newline>'' @
       ''                        line-height: 1.4;\<newline>'' @
       ''                        margin: '')\<close>

definition injectedStyle_part2 :: jsstring where
  \<open>injectedStyle_part2 =
     js (''mm;\<newline>'' @
       ''                    }\<newline>'' @
       ''                    h1, h2, h3, h4, h5, h6 {\<newline>'' @
       ''                        font-family: 'Liberation Serif', 'Times New Roman', 'Georgia', serif !important;\<newline>'' @
       ''                    }\<newline>'' @
       ''                    p, div, span, li, td, th {\<newline>'' @
       ''                        font-family: 'Liberation Serif', 'Times New Roman', 'Georgia', serif !important;\<newline>'' @
       ''                    }\<newline>'' @
       ''                    pre, code {\<newline>'' @
       ''                        font-family: 'Courier New', 'Consolas', 'Monaco', monospace !important;\<newline>'' @
       ''                    }\<newline>'' @
       ''                </style>\<newline>'' @
       ''            </head>'')\<close>

definition documentShell_part1 :: jsstring where
  \<open>documentShell_part1 =
     js (''<!DOCTYPE html>\<newline>'' @
       ''<html lang="en">\<newline>'' @
       ''<head>\<newline>'' @
       ''    <meta charset="UTF-8">\<newline>'' @
       ''    <meta name="viewport" content="width=device-width, initial-scale=1.0">\<newline>'' @
       ''    <title>HTML to PDF</title>\<newline>'' @
       ''    <style>\<newline>'' @
       ''        body {\<newline>'' @
       ''            font-family: 'Liberation Serif', 'Times New Roman', 'Georgia', serif !important;\<newline>'' @
       ''            font-size: 12pt;\<newline>'' @
       ''            line-height: 1.4;\<newline>'' @
       ''            margin: '')\<close>

definition documentShell_part2 :: jsstring where
  \<open>documentShell_part2 =
     js (''mm;\<newline>'' @
       ''            color: #333;\<newline>'' @
       ''        }\<newline>'' @
       ''        h1, h2, h3, h4, h5, h6 {\<newline>'' @
       ''            font-family: 'Liberation Serif', 'Times New Roman', 'Georgia', serif !important;\<newline>'' @
       ''            color: #2c3e50;\<newline>'' @
       ''            margin-top: 1.5em;\<newline>'' @
       ''            margin-bottom: 0.5em;\<newline>'' @
       ''        }\<newline>'' @
       ''        h1 { font-size: 24pt; }\<newline>'' @
       ''        h2 { font-size: 20pt; }\<newline>'' @
       ''        h3 { font-size: 16pt; }\<newline>'' @
       ''        p, div, span, li, td, th {\<newline>'' @
       ''            font-family: 'Liberation Serif', 'Times New Roman', 'Georgia', serif !important;\<newline>'' @
       ''        }\<newline>'' @
       ''        pre, code {\<newline>'' @
       ''            font-family: 'Courier New', 'Consolas', 'Monaco', monospace !important;\<newline>'' @
       ''            background-color: #f8f9fa;\<newline>'' @
       ''            padding: 8px;\<newline>'' @
       ''            border-radius: 4px;\<newline>'' @
       ''            border: 1px solid #e9ecef;\<newline>'' @
       ''        }\<newline>'' @
       ''        table {\<newline>'' @
       ''            border-collapse: collapse;\<newline>'' @
       ''            width: 100%;\<newline>'' @
       ''            margin: 1em 0;\<newline>'' @
       ''        }\<newline>'' @
       ''        th, td {\<newline>'' @
       ''            border: 1px solid #ddd;\<newline>'' @
       ''            padding: 8px;\<newline>'' @
       ''            text-align: left;\<newline>'' @
       ''        }\<newline>'' @
       ''        th {\<newline>'' @
       ''            background-color: #f8f9fa;\<newline>'' @
       ''            font-weight: bold;\<newline>'' @
       ''        }\<newline>'' @
       ''        img {\<newline>'' @
       ''            max-width: 100%;\<newline>'' @
       ''            height: auto;\<newline>'' @
       ''        }\<newline>'' @
       ''        ul, ol {\<newline>'' @
       ''            margin: 1em 0;\<newline>'' @
       ''            padding-left: 2em;\<newline>'' @
       ''        }\<newline>'' @
       ''        li {\<newline>'' @
       ''            margin: 0.5em 0;\<newline>'' @
       ''        }\<newline>'' @
       ''        blockquote {\<newline>'' @
       ''            border-left: 4px solid #007bff;\<newline>'' @
       ''            margin: 1em 0;\<newline>'' @
       ''            padding-left: 1em;\<newline>'' @
       ''            font-style: italic;\<newline>'' @
       ''            color: #666;\<newline>'' @
       ''        }\<newline>'' @
       ''    </style>\<newline>'')\<close>

definition documentShell_part3 :: jsstring where
  \<open>documentShell_part3 =
     js (''</head>\<newline>'' @
       ''<body>\<newline>'' @
       ''    '')\<close>

definition documentShell_part4 :: jsstring where
  \<open>documentShell_part4 =
     js (''\<newline>'' @
       ''</body>\<newline>'' @
       ''</html>'')\<close>

definition injectedStyle :: "settings \<Rightarrow> jsstring" where
  "injectedStyle settings =
     injectedStyle_part1 @ numberToString (margin settings) @ injectedStyle_part2"

definition createCompleteHTMLDocument :: "jsstring \<Rightarrow> settings \<Rightarrow> jsstring" where
  "createCompleteHTMLDocument html settings =
     (if hasHTML html \<and> hasHead html \<and> hasBody html
      then replace_first (js ''</head>'') (injectedStyle settings) html
      else documentShell_part1 @ numberToString (margin settings) @ documentShell_part2
             @ documentShell_part3 @ html @ documentShell_part4)"

text \<open>
  The number of places where a text occurs in a string, used to count the style blocks of
  a document by their opening tag.
\<close>

fun countOccurrences :: "jsstring \<Rightarrow> jsstring \<Rightarrow> nat" where
  "countOccurrences p [] = (if p = [] then 1 else 0)"
| "countOccurrences p (c # cs) =
     (if prefix p (c # cs) then 1 else 0) + countOccurrences p cs"

section \<open>The conversion function of the standalone module\<close>

text \<open>
  \<open>convertHTMLToPDF\<close> takes any JavaScript values. Of a value the function uses its
  truthiness and its type tag. What the headless browser does is a parameter: each of its
  four calls either succeeds or throws an error with a message. The calls made are
  recorded in order, a launch that throws included; the browser is closed in the end when
  the launch has given one. Console output is left out.
\<close>

datatype jsvalue =
    JUndefined
  | JNull
  | JBoolean bool
  | JNumber int
  | JString jsstring
  | JObject

fun truthy :: "jsvalue \<Rightarrow> bool" where
  "truthy JUndefined = False"
| "truthy JNull = False"
| "truthy (JBoolean b) = b"
| "truthy (JNumber n) = (n \<noteq> 0)"
| "truthy (JString s) = (s \<noteq> [])"
| "truthy JObject = True"

fun isString :: "jsvalue \<Rightarrow> bool" where
  "isString (JString s) = True"
| "isString v = False"

fun stringOf :: "jsvalue \<Rightarrow> jsstring" where
  "stringOf (JString s) = s"
| "stringOf v = []"

datatype error = Error jsstring

datatype event =
    Launch
  | NewPage
  | SetContent jsstring
  | PrintPDF jsstring
  | Close

record puppeteer =
  launchThrows :: "jsstring option"
  newPageThrows :: "jsstring option"
  setContentThrows :: "jsstring option"
  pdfThrows :: "jsstring option"

text \<open>
  The options of a call: a key that is absent is \<open>None\<close>. The defaults are overridden
  by the spread of the options, so a key that is present wins with the value it has.
\<close>

record options =
  optPageSize :: "jsstring option"
  optOrientation :: "jsstring option"
  optMargin :: "int option"
  optIncludeFonts :: "bool option"
  optRenderCodeBlocks :: "bool option"

definition mergeOptions :: "options \<Rightarrow> config" where
  "mergeOptions opts =
     \<lparr>pageSize = (case optPageSize opts of None \<Rightarrow> js ''A4'' | Some v \<Rightarrow> v),
      orientation = (case optOrientation opts of None \<Rightarrow> js ''portrait'' | Some v \<Rightarrow> v),
      margin = (case optMargin opts of None \<Rightarrow> 10 | Some v \<Rightarrow> v),
      includeFonts = (case optIncludeFonts opts of None \<Rightarrow> True | Some v \<Rightarrow> v),
      renderCodeBlocks = (case optRenderCodeBlocks opts of None \<Rightarrow> True | Some v \<Rightarrow> v)\<rparr>"

text \<open>
  The body of the \<open>try\<close> block after a successful launch; the \<open>finally\<close> block closes
  the browser whatever happened in it.
\<close>

definition renderInBrowser ::
  "jsstring \<Rightarrow> jsstring \<Rightarrow> config \<Rightarrow> puppeteer \<Rightarrow> (error + jsstring) \<times> event list" where
  "renderInBrowser htmlContent outputPath config env =
     (case newPageThrows env of
        Some e \<Rightarrow> (Inl (Error e), [NewPage, Close])
      | None \<Rightarrow>
          (let processedHTML = processHTMLContent htmlContent config in
           case setContentThrows env of
             Some e \<Rightarrow> (Inl (Error e), [NewPage, SetContent processedHTML, Close])
           | None \<Rightarrow>
               (case pdfThrows env of
                  Some e \<Rightarrow>
                    (Inl (Error e),
                     [NewPage, SetContent processedHTML, PrintPDF outputPath, Close])
                | None \<Rightarrow>
                    (Inr outputPath,
                     [NewPage, SetContent processedHTML, PrintPDF outputPath, Close]))))"

definition convertHTMLToPDF ::
  "jsvalue \<Rightarrow> jsvalue \<Rightarrow> options \<Rightarrow> puppeteer \<Rightarrow> (error + jsstring) \<times> event list" where
  "convertHTMLToPDF htmlContent outputPath opts env =
     (if \<not> truthy htmlContent \<or> \<not> isString htmlContent
      then (Inl (Error (js ''htmlContent must be a non-empty string'')), [])
      else if \<not> truthy outputPath \<or> \<not> isString outputPath
      then (Inl (Error (js ''outputPath must be a non-empty string'')), [])
      else
        (let config = mergeOptions opts in
         case launchThrows env of
           Some e \<Rightarrow> (Inl (Error e), [Launch])
         | None \<Rightarrow>
             (let (result, events) =
                    renderInBrowser (stringOf htmlContent) (stringOf outputPath) config env
              in (result, Launch # events))))"

section \<open>JavaScript numbers\<close>

text \<open>
  A Number is an IEEE 754 binary64 value. A finite one is a sign (\<open>True\<close> is minus), a
  significand \<open>m\<close> below \<open>2^53\<close> and an exponent \<open>e\<close> from \<open>-1074\<close> to \<open>971\<close>; its
  value is \<open>m * 2^e\<close> with that sign. Zero has a sign too. The other values are the two
  infinities and NaN.
\<close>

datatype number =
    Finite bool nat int
  | Infinity bool
  | NaN

text \<open>The literal \<open>0\<close>.\<close>

definition plusZero :: number where
  "plusZero = Finite False 0 (- 1074)"

text \<open>The number of binary digits of a natural number.\<close>

function bitlength :: "nat \<Rightarrow> nat" where
  "bitlength n = (if n = 0 then 0 else bitlength (n div 2) + 1)"
  by pat_completeness auto
termination
  by (relation "measure id") auto

text \<open>
  For positive \<open>n\<close> and \<open>d\<close>, the exponent of the power of two at or below \<open>n / d\<close>.
  The difference of the two bit lengths is this exponent or one more than it.
\<close>

definition binade :: "nat \<Rightarrow> nat \<Rightarrow> int" where
  "binade n d =
     (if d * 2 ^ (bitlength n - bitlength d) \<le> n * 2 ^ (bitlength d - bitlength n)
      then int (bitlength n) - int (bitlength d)
      else int (bitlength n) - int (bitlength d) - 1)"

text \<open>The whole number nearest to \<open>a / b\<close>; of two equally near ones the even one.\<close>

definition nearest_even :: "nat \<Rightarrow> nat \<Rightarrow> nat" where
  "nearest_even a b =
     (if 2 * (a mod b) < b \<or> (2 * (a mod b) = b \<and> even (a div b))
      then a div b else a div b + 1)"

text \<open>
  The Number with the significand \<open>m\<close> (at most \<open>2^53\<close>) and the exponent \<open>u\<close>: from
  \<open>2^1024\<close> on it is infinite.
\<close>

definition pack :: "bool \<Rightarrow> nat \<Rightarrow> int \<Rightarrow> number" where
  "pack sign m u =
     (if 971 < u \<or> (u = 971 \<and> 2 ^ 53 \<le> m) then Infinity sign
      else if m = 2 ^ 53 then Finite sign (2 ^ 52) (u + 1)
      else Finite sign m u)"

text \<open>
  Rounding to nearest, ties to even: the Number nearest to \<open>n / d\<close> with the given sign.
  The result is a multiple of \<open>2^u\<close>, where \<open>u\<close> leaves 53 binary digits for the
  significand and is never below \<open>-1074\<close>, the exponent of the subnormal numbers.
\<close>

definition round_at :: "bool \<Rightarrow> nat \<Rightarrow> nat \<Rightarrow> int \<Rightarrow> number" where
  "round_at sign n d u = pack sign (nearest_even (n * 2 ^ nat (- u)) (d * 2 ^ nat u)) u"

definition round_to_double :: "bool \<Rightarrow> nat \<Rightarrow> nat \<Rightarrow> number" where
  "round_to_double sign n d =
     (if n = 0 then Finite sign 0 (- 1074)
      else round_at sign n d (max (binade n d - 52) (- 1074)))"

text \<open>An unsigned integer, such as the width of a canvas, as a Number.\<close>

definition toNumber :: "nat \<Rightarrow> number" where
  "toNumber n = round_to_double False n 1"

text \<open>The operators \<open>*\<close> and \<open>/\<close>: the exact product or quotient, rounded.\<close>

fun fmul :: "number \<Rightarrow> number \<Rightarrow> number" where
  "fmul (Finite s m e) (Finite t n f) =
     round_to_double (s \<noteq> t) (m * n * 2 ^ nat (e + f)) (2 ^ nat (- (e + f)))"
| "fmul (Finite s m e) (Infinity t) = (if m = 0 then NaN else Infinity (s \<noteq> t))"
| "fmul (Infinity s) (Finite t n f) = (if n = 0 then NaN else Infinity (s \<noteq> t))"
| "fmul (Infinity s) (Infinity t) = Infinity (s \<noteq> t)"
| "fmul NaN y = NaN"
| "fmul x NaN = NaN"

fun fdiv :: "number \<Rightarrow> number \<Rightarrow> number" where
  "fdiv (Finite s m e) (Finite t n f) =
     (if n = 0 then (if m = 0 then NaN else Infinity (s \<noteq> t))
      else round_to_double (s \<noteq> t) (m * 2 ^ nat (e - f)) (n * 2 ^ nat (f - e)))"
| "fdiv (Finite s m e) (Infinity t) = Finite (s \<noteq> t) 0 (- 1074)"
| "fdiv (Infinity s) (Finite t n f) = Infinity (s \<noteq> t)"
| "fdiv (Infinity s) (Infinity t) = NaN"
| "fdiv NaN y = NaN"
| "fdiv x NaN = NaN"

text \<open>
  The operator \<open>-\<close>. The exact difference of two finite Numbers is a whole multiple
  \<open>k\<close> of \<open>2^x\<close>, where \<open>x\<close> is the smaller exponent. A difference that is exactly
  zero is \<open>+0\<close>, except for \<open>-0 - +0\<close>, which is \<open>-0\<close>.
\<close>

definition withSign :: "bool \<Rightarrow> nat \<Rightarrow> int" where
  "withSign s m = (if s then - int m else int m)"

definition round_dyadic :: "int \<Rightarrow> int \<Rightarrow> bool \<Rightarrow> number" where
  "round_dyadic k x zero_sign =
     (if k = 0 then Finite zero_sign 0 (- 1074)
      else round_to_double (k < 0) (nat \<bar>k\<bar> * 2 ^ nat x) (2 ^ nat (- x)))"

fun fsub :: "number \<Rightarrow> number \<Rightarrow> number" where
  "fsub (Finite s m e) (Finite t n f) =
     round_dyadic
       (withSign s m * 2 ^ nat (e - min e f) - withSign t n * 2 ^ nat (f - min e f))
       (min e f) (m = 0 \<and> n = 0 \<and> s \<and> \<not> t)"
| "fsub (Finite s m e) (Infinity t) = Infinity (\<not> t)"
| "fsub (Infinity s) (Finite t n f) = Infinity s"
| "fsub (Infinity s) (Infinity t) = (if s = t then NaN else Infinity s)"
| "fsub NaN y = NaN"
| "fsub x NaN = NaN"

text \<open>The operator \<open>>=\<close>; a comparison with NaN is false.\<close>

fun fge :: "number \<Rightarrow> number \<Rightarrow> bool" where
  "fge (Finite s m e) (Finite t n f) =
     (withSign t n * 2 ^ nat (f - min e f) \<le> withSign s m * 2 ^ nat (e - min e f))"
| "fge (Finite s m e) (Infinity t) = t"
| "fge (Infinity s) (Finite t n f) = (\<not> s)"
| "fge (Infinity s) (Infinity t) = (t \<or> \<not> s)"
| "fge NaN y = False"
| "fge x NaN = False"

text \<open>The real number that a finite Number stands for.\<close>

fun value_of :: "number \<Rightarrow> real option" where
  "value_of (Finite s m e) = Some (of_int (withSign s m) * 2 ^ nat e / 2 ^ nat (- e))"
| "value_of (Infinity s) = None"
| "value_of NaN = None"

section \<open>The pagination loop of the browser extension\<close>

text \<open>
  A PDF document is the list of its pages, a page the list of the vertical positions at
  which the image was put on it (the image has the same width and height on every page).
  A new document has one empty page; \<open>addImage\<close> draws on the last page and
  \<open>addPage\<close> appends an empty one.
\<close>

type_synonym pdf = "number list list"

definition newPDF :: pdf where
  "newPDF = [[]]"

definition addImage :: "number \<Rightarrow> pdf \<Rightarrow> pdf" where
  "addImage position doc = butlast doc @ [last doc @ [position]]"

definition addPage :: "pdf \<Rightarrow> pdf" where
  "addPage doc = doc @ [[]]"

text \<open>
  The \<open>while (heightLeft >= 0)\<close> loop. A run that never leaves the loop has the value
  \<open>None\<close>.
\<close>

partial_function (option) paginateLoop :: "number \<Rightarrow> number \<Rightarrow> number \<Rightarrow> pdf \<Rightarrow> pdf option" where
  "paginateLoop imgHeight pageHeight heightLeft doc =
     (if fge heightLeft plusZero
      then paginateLoop imgHeight pageHeight (fsub heightLeft pageHeight)
             (addImage (fsub heightLeft imgHeight) (addPage doc))
      else Some doc)"

definition paginate :: "number \<Rightarrow> number \<Rightarrow> pdf option" where
  "paginate imgHeight pageHeight =
     paginateLoop imgHeight pageHeight (fsub imgHeight pageHeight) (addImage plusZero newPDF)"

text \<open>
  The part of \<open>generatePDFFromHTML\<close> that places the image. The width and the height
  of the canvas are whole numbers of pixels; \<open>imgWidth\<close> and \<open>pageHeight\<close> are the
  width and the height of the page in millimetres as the PDF library reports them. The
  image is scaled to the width of the page: its height is
  \<open>(canvas.height * imgWidth) / canvas.width\<close>.
\<close>

definition imgHeight :: "nat \<Rightarrow> nat \<Rightarrow> number \<Rightarrow> number" where
  "imgHeight canvasWidth canvasHeight imgWidth =
     fdiv (fmul (toNumber canvasHeight) imgWidth) (toNumber canvasWidth)"

definition generatePDFFromHTML :: "nat \<Rightarrow> nat \<Rightarrow> number \<Rightarrow> number \<Rightarrow> pdf option" where
  "generatePDFFromHTML canvasWidth canvasHeight imgWidth pageHeight =
     paginate (imgHeight canvasWidth canvasHeight imgWidth) pageHeight"

text \<open>
  The page count that the specification asks for, \<open>ceil(H / P)\<close>, taken over the exact
  values of the image height and the page height.
\<close>

definition specPageCount :: "number \<Rightarrow> number \<Rightarrow> int option" where
  "specPageCount H P =
     (case (value_of H, value_of P) of
        (Some h, Some p) \<Rightarrow> Some \<lceil>h / p\<rceil>
      | _ \<Rightarrow> None)"

text \<open>
  The height of the band of the image that shows on a page of height \<open>P\<close> when the
  image of height \<open>H\<close> is drawn at the vertical position \<open>position\<close> (zero or
  negative): the band from the top of the page down to the end of the page or of the
  image.
\<close>

definition sliceHeight :: "number \<Rightarrow> number \<Rightarrow> number \<Rightarrow> real option" where
  "sliceHeight H P position =
     (case (value_of H, value_of P, value_of position) of
        (Some h, Some p, Some y) \<Rightarrow> Some (max 0 (min p (h + y)))
      | _ \<Rightarrow> None)"

section \<open>Evaluation rules\<close>

text \<open>
  The definitions that a concrete run unfolds: the patterns down to their tokens, and the
  matcher down to its character tests.
\<close>

lemmas pattern_defs = centeringPattern_def innerDivPattern_def generalCenteringPattern_def
  codeBlockPattern_def lits_def quoteChars_def

lemmas matcher_defs = match_here_def canonicalize_def is_space_def

lemmas centering_defs = fixCenteringIssues_def fixContentWrappers_def fixGeneralWrappers_def
  firstGroup_def generalCallback_def wrapperDiv_def stripTrailingDiv_def hasMinimalStyling_def
  hasCenteringStyles_def

section \<open>The pagination loop\<close>

declare bitlength.simps [simp del]

lemma bitlength_numeral:
  "bitlength 0 = 0"
  "bitlength (Suc 0) = 1"
  "bitlength 1 = 1"
  "bitlength (numeral (Num.Bit0 k)) = bitlength (numeral k) + 1"
  "bitlength (numeral (Num.Bit1 k)) = bitlength (numeral k) + 1"
proof -
  show "bitlength 0 = 0" by (simp add: bitlength.simps)
  show "bitlength (Suc 0) = 1" by (simp add: bitlength.simps)
  then show "bitlength 1 = 1" by simp
  show "bitlength (numeral (Num.Bit0 k)) = bitlength (numeral k) + 1"
    by (subst bitlength.simps) simp
  show "bitlength (numeral (Num.Bit1 k)) = bitlength (numeral k) + 1"
    by (subst bitlength.simps) simp
qed

lemmas number_defs = toNumber_def round_to_double_def round_at_def pack_def nearest_even_def
  round_dyadic_def binade_def bitlength_numeral withSign_def plusZero_def

lemmas loop_defs = generatePDFFromHTML_def paginate_def paginateLoop.simps addImage_def
  addPage_def newPDF_def

text \<open>
  The PDF library keeps the page formats in points and reports sizes in millimetres as
  points divided by \<open>72 / 25.4\<close>. A Legal page in landscape is 1008 by 612 points, a
  Letter page in landscape 792 by 612 points. Their widths are the Numbers
  \<open>355.59999999999997\<close> and \<open>279.4\<close>, in hexadecimal \<open>0x1.6399999999999p+8\<close> and
  \<open>0x1.1766666666666p+8\<close>; the height of both is \<open>215.89999999999998\<close>,
  \<open>0x1.afcccccccccccp+7\<close>.
\<close>

lemma landscape_sizes:
  "fdiv (toNumber 1008) (fdiv (toNumber 72) (round_to_double False 254 10))
     = Finite False 0x16399999999999 (- 44)"
  "fdiv (toNumber 792) (fdiv (toNumber 72) (round_to_double False 254 10))
     = Finite False 0x11766666666666 (- 44)"
  "fdiv (toNumber 612) (fdiv (toNumber 72) (round_to_double False 254 10))
     = Finite False 0x1AFCCCCCCCCCCC (- 45)"
  by (simp_all add: number_defs)

text \<open>
  A canvas of 1600 by 34000 pixels on the Legal page. The image is scaled to a height of
  \<open>7556.499999999999\<close> millimetres, \<open>0x1.d847fffffffffp+12\<close>.
\<close>

lemma imgHeight_legal_landscape:
  "imgHeight 1600 34000 (Finite False 0x16399999999999 (- 44)) = Finite False 0x1D847FFFFFFFFF (- 40)"
  by (simp add: imgHeight_def number_defs)

text \<open>The document that the loop builds: 36 pages, each with the position of the image.\<close>

lemma generatePDFFromHTML_legal_landscape:
  "generatePDFFromHTML 1600 34000 (Finite False 0x16399999999999 (- 44))
       (Finite False 0x1AFCCCCCCCCCCC (- 45)) =
     Some
       [[Finite False 0 (- 1074)],
        [Finite True 0x1AFCCCCCCCCCC0 (- 45)],
        [Finite True 0x1AFCCCCCCCCCC0 (- 44)],
        [Finite True 0x143D9999999990 (- 43)],
        [Finite True 0x1AFCCCCCCCCCC0 (- 43)],
        [Finite True 0x10DDFFFFFFFFF8 (- 42)],
        [Finite True 0x143D9999999990 (- 42)],
        [Finite True 0x179D3333333328 (- 42)],
        [Finite True 0x1AFCCCCCCCCCC0 (- 42)],
        [Finite True 0x1E5C6666666658 (- 42)],
        [Finite True 0x10DDFFFFFFFFF8 (- 41)],
        [Finite True 0x128DCCCCCCCCC4 (- 41)],
        [Finite True 0x143D9999999990 (- 41)],
        [Finite True 0x15ED666666665C (- 41)],
        [Finite True 0x179D3333333328 (- 41)],
        [Finite True 0x194CFFFFFFFFF4 (- 41)],
        [Finite True 0x1AFCCCCCCCCCC0 (- 41)],
        [Finite True 0x1CAC999999998D (- 41)],
        [Finite True 0x1E5C666666665A (- 41)],
        [Finite True 0x10061999999994 (- 40)],
        [Finite True 0x10DDFFFFFFFFFA (- 40)],
        [Finite True 0x11B5E666666660 (- 40)],
        [Finite True 0x128DCCCCCCCCC7 (- 40)],
        [Finite True 0x1365B33333332E (- 40)],
        [Finite True 0x143D9999999994 (- 40)],
        [Finite True 0x15157FFFFFFFFA (- 40)],
        [Finite True 0x15ED6666666661 (- 40)],
        [Finite True 0x16C54CCCCCCCC8 (- 40)],
        [Finite True 0x179D333333332E (- 40)],
        [Finite True 0x18751999999994 (- 40)],
        [Finite True 0x194CFFFFFFFFFB (- 40)],
        [Finite True 0x1A24E666666661 (- 40)],
        [Finite True 0x1AFCCCCCCCCCC8 (- 40)],
        [Finite True 0x1BD4B33333332E (- 40)],
        [Finite True 0x1CAC9999999994 (- 40)],
        [Finite True 0x1D847FFFFFFFFB (- 40)]]"
  by (simp add: loop_defs imgHeight_legal_landscape number_defs)

text \<open>
  Claim C1 (pagination exactness: \<open>\<lceil>H / P\<rceil>\<close> pages, and no extra page for an exact
  multiple). The canvas of 1600 by 34000 pixels is exactly 35 Legal pages in landscape
  high: a page of 14 by 8.5 inches is \<open>1600 * 8.5 / 14\<close> pixels high at this width,
  and 35 times that is 34000. The height of the image and of the page in millimetres, as
  the loop has them, give 35 too, both as the exact quotient and as the quotient that
  JavaScript computes. The loop keeps the height that is left by repeated subtraction;
  after 35 pages it is \<open>2^-38\<close>, not negative, and the loop adds a 36th page. The
  band of the image on that page is \<open>2^-38\<close> millimetres high: a blank page.
\<close>

theorem paginate_exact_multiple_adds_blank_page:
  "map_option length
      (generatePDFFromHTML 1600 34000 (Finite False 0x16399999999999 (- 44))
        (Finite False 0x1AFCCCCCCCCCCC (- 45))) = Some 36
   \<and> specPageCount (imgHeight 1600 34000 (Finite False 0x16399999999999 (- 44)))
        (Finite False 0x1AFCCCCCCCCCCC (- 45)) = Some 35
   \<and> map_option ceiling
        (value_of (fdiv (imgHeight 1600 34000 (Finite False 0x16399999999999 (- 44)))
          (Finite False 0x1AFCCCCCCCCCCC (- 45)))) = Some 35
   \<and> map_option last
        (generatePDFFromHTML 1600 34000 (Finite False 0x16399999999999 (- 44))
          (Finite False 0x1AFCCCCCCCCCCC (- 45)))
       = Some [Finite True 0x1D847FFFFFFFFB (- 40)]
   \<and> sliceHeight (imgHeight 1600 34000 (Finite False 0x16399999999999 (- 44)))
        (Finite False 0x1AFCCCCCCCCCCC (- 45))
        (Finite True 0x1D847FFFFFFFFB (- 40)) = Some (1 / 2 ^ 38)"
  by (simp add: generatePDFFromHTML_legal_landscape imgHeight_legal_landscape
      specPageCount_def sliceHeight_def number_defs)

text \<open>
  The same on a Letter page in landscape: a canvas of 1600 by 54400 pixels, 44 pages
  high, gets 45 pages. A canvas of 1600 by 13600 pixels, 11 pages high, gets 11: there
  the height that is left ends just below zero.
\<close>

lemma generatePDFFromHTML_letter_landscape:
  "map_option length
      (generatePDFFromHTML 1600 54400 (Finite False 0x11766666666666 (- 44))
        (Finite False 0x1AFCCCCCCCCCCC (- 45))) = Some 45"
  "specPageCount (imgHeight 1600 54400 (Finite False 0x11766666666666 (- 44)))
      (Finite False 0x1AFCCCCCCCCCCC (- 45)) = Some 44"
  "map_option length
      (generatePDFFromHTML 1600 13600 (Finite False 0x11766666666666 (- 44))
        (Finite False 0x1AFCCCCCCCCCCC (- 45))) = Some 11"
  "specPageCount (imgHeight 1600 13600 (Finite False 0x11766666666666 (- 44)))
      (Finite False 0x1AFCCCCCCCCCCC (- 45)) = Some 11"
  by (simp_all add: loop_defs imgHeight_def specPageCount_def number_defs)

section \<open>The conversion function rejects bad input first\<close>

text \<open>A call with two non-empty strings does launch the browser.\<close>

lemma convertHTMLToPDF_launches:
  "truthy htmlContent \<Longrightarrow> isString htmlContent \<Longrightarrow> truthy outputPath \<Longrightarrow> isString outputPath
   \<Longrightarrow> hd (snd (convertHTMLToPDF htmlContent outputPath opts env)) = Launch"
  by (simp add: convertHTMLToPDF_def Let_def split: option.splits prod.splits)

text \<open>
  Claim C9 (\<open>convertHTMLToPDF\<close> fails with an input error when \<open>htmlContent\<close> or
  \<open>outputPath\<close> is empty or not a string, before any rendering resource is acquired).
  The result is an error and no call to the browser has been made, the launch included.
\<close>

theorem convertHTMLToPDF_rejects_bad_input:
  "\<not> (truthy htmlContent \<and> isString htmlContent) \<or> \<not> (truthy outputPath \<and> isString outputPath)
   \<Longrightarrow> (\<exists>msg. fst (convertHTMLToPDF htmlContent outputPath opts env) = Inl (Error msg))
     \<and> snd (convertHTMLToPDF htmlContent outputPath opts env) = []"
  by (auto simp add: convertHTMLToPDF_def)

text \<open>The call \<open>convertHTMLToPDF('', 'out.pdf')\<close> with a browser that would work.\<close>

theorem convertHTMLToPDF_rejects_bad_input_witness:
  "fst (convertHTMLToPDF (JString []) (JString (js ''out.pdf''))
        \<lparr>optPageSize = None, optOrientation = None, optMargin = None,
         optIncludeFonts = None, optRenderCodeBlocks = None\<rparr>
        \<lparr>launchThrows = None, newPageThrows = None, setContentThrows = None, pdfThrows = None\<rparr>)
     = Inl (Error (js ''htmlContent must be a non-empty string''))
   \<and> snd (convertHTMLToPDF (JString []) (JString (js ''out.pdf''))
        \<lparr>optPageSize = None, optOrientation = None, optMargin = None,
         optIncludeFonts = None, optRenderCodeBlocks = None\<rparr>
        \<lparr>launchThrows = None, newPageThrows = None, setContentThrows = None, pdfThrows = None\<rparr>)
     = []"
  using convertHTMLToPDF_rejects_bad_input [of "JString []" "JString (js ''out.pdf'')"
        "\<lparr>optPageSize = None, optOrientation = None, optMargin = None,
          optIncludeFonts = None, optRenderCodeBlocks = None\<rparr>"
        "\<lparr>launchThrows = None, newPageThrows = None, setContentThrows = None, pdfThrows = None\<rparr>"]
  by (simp add: convertHTMLToPDF_def)

section \<open>Concrete runs of the preprocessor steps\<close>

text \<open>
  Claim C6 (the centering-fix example). The first pattern matches the whole input and the
  wrapper is replaced by the inner div; the general pattern finds nothing in the result.
\<close>

theorem fixCenteringIssues_example:
  \<open>fixCenteringIssues (js ''<div class="content"><div style="margin:auto">X</div></div>'')
     = js ''<div style="margin:auto">X</div>''\<close>
  by (simp add: centering_defs pattern_defs matcher_defs js_def)

text \<open>
  Claim C7 (the code-block example: an escaped \<open>h1\<close> in a code block gets a preview).
  The function looks for the characters \<open><\<close> and \<open>>\<close> in the text between the
  tags as it stands in the string. The text of the example holds the entities
  \<open>&lt;\<close> and \<open>&gt;\<close> and neither character, so the block is returned as it is, with
  no preview.
\<close>

theorem renderHTMLCodeBlocks_escaped_example:
  \<open>renderHTMLCodeBlocks (js ''<pre><code>&lt;h1&gt;Hi&lt;/h1&gt;</code></pre>'')
     = js ''<pre><code>&lt;h1&gt;Hi&lt;/h1&gt;</code></pre>''\<close>
  by (simp add: renderHTMLCodeBlocks_def codeBlockCallback_def looksLikeHTML_def
      pattern_defs matcher_defs js_def sublist_code)

text \<open>
  Claim C3 (exactly one generated style block in the output of \<open>processHTMLContent\<close>).
  The three tags are looked for without regard to case, the place of the style block is
  the text \<open></head>\<close> in lower case. A complete document written in upper case is
  taken as complete and then has no place for the style block: it comes back unchanged,
  with no style block at all, whatever the settings.
\<close>

theorem processHTMLContent_upper_case_document:
  \<open>processHTMLContent
      (js ''<HTML><HEAD><TITLE>T</TITLE></HEAD><BODY><P>Hi</P></BODY></HTML>'') config
     = js ''<HTML><HEAD><TITLE>T</TITLE></HEAD><BODY><P>Hi</P></BODY></HTML>''
   \<and> countOccurrences (js ''<style>'')
        (processHTMLContent
          (js ''<HTML><HEAD><TITLE>T</TITLE></HEAD><BODY><P>Hi</P></BODY></HTML>'') config) = 0\<close>
  by (simp add: processHTMLContent_def injectStyles_def hasHTML_def hasHead_def hasBody_def
      replace_first_def renderHTMLCodeBlocks_def Let_def centering_defs pattern_defs
      matcher_defs js_def)

text \<open>
  Claim C4 (\<open>processHTMLContent\<close> never fails and wraps a partial document in a full
  document shell). The test for the head tag, \<open>/<head[^>]*>/i\<close>, also accepts the tag
  \<open><header>\<close>. A document with the tags \<open>html\<close>, \<open>header\<close> and \<open>body\<close> and
  without a head is taken as complete. It has no \<open></head>\<close> to put the style block
  before, so it comes back unchanged, whatever the settings: not wrapped, without a head
  and without the style block.
\<close>

theorem processHTMLContent_header_document:
  \<open>hasHead (js ''<html><header>h</header><body>x</body></html>'')
   \<and> \<not> regex_test (lits ''<head>'') (js ''<html><header>h</header><body>x</body></html>'')
   \<and> processHTMLContent (js ''<html><header>h</header><body>x</body></html>'') config
     = js ''<html><header>h</header><body>x</body></html>''\<close>
  by (simp add: processHTMLContent_def injectStyles_def hasHTML_def hasHead_def hasBody_def
      replace_first_def renderHTMLCodeBlocks_def Let_def centering_defs pattern_defs
      matcher_defs js_def)

section \<open>Matches and global replacement\<close>

lemma match_all_empty_iff: "match_all p s = [] \<longleftrightarrow> \<not> regex_test p s"
  by (induction s) (auto split: option.splits)

lemma replace_global_unchanged:
  "(\<And>m g. (m, g) \<in> set (match_all p s) \<Longrightarrow> f m g = m) \<Longrightarrow> replace_global p f s = s"
proof (induction p f s rule: replace_global.induct)
  case (1 p f)
  then show ?case by (auto split: option.splits)
next
  case (2 p f c cs)
  show ?case
  proof (cases "match_here p (c # cs)")
    case None
    then show ?thesis using 2 by simp
  next
    case (Some r)
    obtain e gs ge where r: "r = (e, gs, ge)" by (cases r) auto
    have here: "f (take e (c # cs)) (take (ge - gs) (drop gs (c # cs))) = take e (c # cs)"
      using "2.prems" Some r by simp
    show ?thesis
    proof (cases "e = 0")
      case True
      have "replace_global p f cs = cs"
        using "2.IH"(2) [OF Some r[symmetric] refl True] "2.prems" Some r True by simp
      then show ?thesis using Some r True here by simp
    next
      case False
      have "replace_global p f (drop e (c # cs)) = drop e (c # cs)"
        using "2.IH"(3) [OF Some r[symmetric] refl False] "2.prems" Some r False by simp
      then show ?thesis using Some r False here
        by (simp del: take_Suc_Cons drop_Suc_Cons)
    qed
  qed
qed

text \<open>
  What a global replacement does to its subject. The subject is a sequence of pieces, each
  a gap followed by a match, and a rest; the matches are those that the search finds, in
  its order, each with the text of its group. The result is the same sequence with every
  match replaced by what the callback returns for it. The gaps and the rest are not
  touched.
\<close>

lemma pieces_Cons:
  "\<exists>ps' rest'.
      c # concat (map (\<lambda>(gap, m, g). gap @ m) ps) @ rest
        = concat (map (\<lambda>(gap, m, g). gap @ m) ps') @ rest'
    \<and> map (\<lambda>(gap, m, g). (m, g)) ps' = map (\<lambda>(gap, m, g). (m, g)) ps
    \<and> (\<forall>f. c # concat (map (\<lambda>(gap, m, g). gap @ f m g) ps) @ rest
          = concat (map (\<lambda>(gap, m, g). gap @ f m g) ps') @ rest')"
proof (cases ps)
  case Nil
  then show ?thesis by (intro exI [of _ "[]"] exI [of _ "c # rest"]) simp
next
  case (Cons p qs)
  obtain gap m g where p: "p = (gap, m, g)" by (cases p) auto
  show ?thesis
    by (intro exI [of _ "(c # gap, m, g) # qs"] exI [of _ rest]) (simp add: Cons p)
qed

lemma replace_global_pieces:
  "\<exists>ps rest.
      s = concat (map (\<lambda>(gap, m, g). gap @ m) ps) @ rest
    \<and> map (\<lambda>(gap, m, g). (m, g)) ps = match_all p s
    \<and> (\<forall>f. replace_global p f s = concat (map (\<lambda>(gap, m, g). gap @ f m g) ps) @ rest)"
proof (induction p s rule: match_all.induct)
  case (1 p)
  show ?case
  proof (cases "match_here p []")
    case None
    then show ?thesis by (intro exI [of _ "[]"]) simp
  next
    case (Some r)
    obtain e gs ge where r: "r = (e, gs, ge)" by (cases r) auto
    show ?thesis
      by (intro exI [of _ "[([], [], [])]"] exI [of _ "[]"]) (simp add: Some r)
  qed
next
  case (2 p c cs)
  show ?case
  proof (cases "match_here p (c # cs)")
    case None
    from "2.IH"(1) [OF None] obtain ps rest where
      a: "cs = concat (map (\<lambda>(gap, m, g). gap @ m) ps) @ rest"
      and b: "map (\<lambda>(gap, m, g). (m, g)) ps = match_all p cs"
      and c: "\<And>f. replace_global p f cs = concat (map (\<lambda>(gap, m, g). gap @ f m g) ps) @ rest"
      by blast
    from pieces_Cons [of c ps rest] obtain ps' rest' where
      a': "c # concat (map (\<lambda>(gap, m, g). gap @ m) ps) @ rest
             = concat (map (\<lambda>(gap, m, g). gap @ m) ps') @ rest'"
      and b': "map (\<lambda>(gap, m, g). (m, g)) ps' = map (\<lambda>(gap, m, g). (m, g)) ps"
      and c': "\<And>f. c # concat (map (\<lambda>(gap, m, g). gap @ f m g) ps) @ rest
             = concat (map (\<lambda>(gap, m, g). gap @ f m g) ps') @ rest'"
      by blast
    have "c # cs = concat (map (\<lambda>(gap, m, g). gap @ m) ps') @ rest'"
      using a a' by simp
    moreover have "map (\<lambda>(gap, m, g). (m, g)) ps' = match_all p (c # cs)"
      using b b' None by simp
    moreover have "\<forall>f. replace_global p f (c # cs)
        = concat (map (\<lambda>(gap, m, g). gap @ f m g) ps') @ rest'"
      using c c' None by simp
    ultimately show ?thesis by blast
  next
    case (Some r)
    obtain e gs ge where r: "r = (e, gs, ge)" by (cases r) auto
    let ?m = "take e (c # cs)"
    let ?g = "take (ge - gs) (drop gs (c # cs))"
    show ?thesis
    proof (cases "e = 0")
      case True
      from "2.IH"(2) [OF Some r[symmetric] refl True] obtain ps rest where
        a: "cs = concat (map (\<lambda>(gap, m, g). gap @ m) ps) @ rest"
        and b: "map (\<lambda>(gap, m, g). (m, g)) ps = match_all p cs"
        and c: "\<And>f. replace_global p f cs
             = concat (map (\<lambda>(gap, m, g). gap @ f m g) ps) @ rest"
        by blast
      from pieces_Cons [of c ps rest] obtain ps' rest' where
        a': "c # concat (map (\<lambda>(gap, m, g). gap @ m) ps) @ rest
               = concat (map (\<lambda>(gap, m, g). gap @ m) ps') @ rest'"
        and b': "map (\<lambda>(gap, m, g). (m, g)) ps' = map (\<lambda>(gap, m, g). (m, g)) ps"
        and c': "\<And>f. c # concat (map (\<lambda>(gap, m, g). gap @ f m g) ps) @ rest
               = concat (map (\<lambda>(gap, m, g). gap @ f m g) ps') @ rest'"
        by blast
      have "c # cs = concat (map (\<lambda>(gap, m, g). gap @ m) (([], [], ?g) # ps')) @ rest'"
        using a a' by simp
      moreover have "map (\<lambda>(gap, m, g). (m, g)) (([], [], ?g) # ps') = match_all p (c # cs)"
        using b b' Some r True by simp
      moreover have "\<forall>f. replace_global p f (c # cs)
          = concat (map (\<lambda>(gap, m, g). gap @ f m g) (([], [], ?g) # ps')) @ rest'"
        using c c' Some r True by simp
      ultimately show ?thesis by blast
    next
      case False
      from "2.IH"(3) [OF Some r[symmetric] refl False] obtain ps rest where
        a: "drop e (c # cs) = concat (map (\<lambda>(gap, m, g). gap @ m) ps) @ rest"
        and b: "map (\<lambda>(gap, m, g). (m, g)) ps = match_all p (drop e (c # cs))"
        and c: "\<And>f. replace_global p f (drop e (c # cs))
             = concat (map (\<lambda>(gap, m, g). gap @ f m g) ps) @ rest"
        by blast
      have "c # cs = ?m @ drop e (c # cs)" by (simp only: append_take_drop_id)
      then have "c # cs = concat (map (\<lambda>(gap, m, g). gap @ m) (([], ?m, ?g) # ps)) @ rest"
        using a by (simp del: take_Suc_Cons drop_Suc_Cons)
      moreover have "map (\<lambda>(gap, m, g). (m, g)) (([], ?m, ?g) # ps) = match_all p (c # cs)"
        using b Some r False by (simp del: take_Suc_Cons drop_Suc_Cons)
      moreover have "\<forall>f. replace_global p f (c # cs)
          = concat (map (\<lambda>(gap, m, g). gap @ f m g) (([], ?m, ?g) # ps)) @ rest"
        using c Some r False by (simp del: take_Suc_Cons drop_Suc_Cons)
      ultimately show ?thesis by blast
    qed
  qed
qed

text \<open>When the matches fill the subject, the gaps and the rest are empty.\<close>

lemma single_piece:
  assumes "s = concat (map (\<lambda>(gap, m, g). gap @ m) ps) @ rest"
    and "map (\<lambda>(gap, m, g). (m, g)) ps = [(s, G)]"
  shows "ps = [([], s, G)] \<and> rest = []"
proof -
  from assms(2) obtain gap where ps: "ps = [(gap, s, G)]"
    by (cases ps) auto
  with assms(1) have "s = gap @ s @ rest" by simp
  then have "length s = length gap + length s + length rest"
    by (metis length_append add.assoc)
  then have "gap = [] \<and> rest = []" by simp
  with ps show ?thesis by simp
qed

lemma two_pieces:
  assumes "s = concat (map (\<lambda>(gap, m, g). gap @ m) ps) @ rest"
    and "map (\<lambda>(gap, m, g). (m, g)) ps = [(m1, g1), (m2, g2)]"
    and "length s = length m1 + length m2"
  shows "ps = [([], m1, g1), ([], m2, g2)] \<and> rest = []"
proof -
  from assms(2) obtain p q where pq: "ps = [p, q]"
    by (cases ps; cases "tl ps") auto
  obtain gap1 gap2 where ps: "ps = [(gap1, m1, g1), (gap2, m2, g2)]"
    using assms(2) unfolding pq by (cases p; cases q) auto
  with assms(1) have "s = gap1 @ m1 @ gap2 @ m2 @ rest" by simp
  then have "length s = length gap1 + length m1 + length gap2 + length m2 + length rest"
    by simp
  with assms(3) have "gap1 = [] \<and> gap2 = [] \<and> rest = []" by simp
  with ps show ?thesis by simp
qed

text \<open>Every match that the search finds is a match of the pattern at some place.\<close>

lemma match_all_elem_group:
  "(m, g) \<in> set (match_all p s) \<Longrightarrow>
   \<exists>t e gs ge. match_here p t = Some (e, gs, ge) \<and> m = take e t
      \<and> g = take (ge - gs) (drop gs t)"
proof (induction p s rule: match_all.induct)
  case (1 p)
  show ?case
  proof (cases "match_here p []")
    case None
    then show ?thesis using 1 by simp
  next
    case (Some r)
    obtain e gs ge where r: "r = (e, gs, ge)" by (cases r) auto
    have "m = take e []" "g = take (ge - gs) (drop gs [])" using 1 Some r by auto
    then show ?thesis using Some r by blast
  qed
next
  case (2 p c cs)
  show ?case
  proof (cases "match_here p (c # cs)")
    case None
    then show ?thesis using 2 by simp
  next
    case (Some r)
    obtain e gs ge where r: "r = (e, gs, ge)" by (cases r) auto
    show ?thesis
    proof (cases "(m, g) = (take e (c # cs), take (ge - gs) (drop gs (c # cs)))")
      case True
      then show ?thesis using Some r by blast
    next
      case ne: False
      show ?thesis
      proof (cases "e = 0")
        case True
        have "(m, g) \<in> set (match_all p cs)" using "2.prems" Some r True ne by auto
        then show ?thesis using "2.IH"(2) [OF Some r[symmetric] refl True] by blast
      next
        case False
        have "(m, g) \<in> set (match_all p (drop e (c # cs)))"
          using "2.prems" Some r False ne by (auto simp del: take_Suc_Cons drop_Suc_Cons)
        then show ?thesis using "2.IH"(3) [OF Some r[symmetric] refl False] by blast
      qed
    qed
  qed
qed

section \<open>Matches of a pattern that starts with literal characters\<close>

lemma bt_literal_prefix:
  "bt (map One cs) i gs ge s = None \<Longrightarrow> bt (map One cs @ q) i gs ge s = None"
proof (induction cs arbitrary: i s)
  case Nil
  then show ?case by simp
next
  case (Cons c cs)
  then show ?case by (cases s) (auto split: if_splits)
qed

lemma regex_test_literal_prefix:
  "\<not> regex_test (map One cs) s \<Longrightarrow> \<not> regex_test (map One cs @ q) s"
proof (induction s)
  case Nil
  then have "bt (map One cs) 0 0 0 [] = None"
    by (simp only: regex_test.simps match_here_def not_not)
  then have "bt (map One cs @ q) 0 0 0 [] = None"
    by (rule bt_literal_prefix)
  then show ?case
    by (simp only: regex_test.simps match_here_def not_not)
next
  case (Cons c s)
  from Cons.prems have here: "bt (map One cs) 0 0 0 (c # s) = None"
    by (cases "bt (map One cs) 0 0 0 (c # s)") (auto simp: match_here_def)
  from Cons.prems have rest: "\<not> regex_test (map One cs) s"
    by simp
  from here
  have "bt (map One cs @ q) 0 0 0 (c # s) = None"
    by (rule bt_literal_prefix)
  then show ?case using Cons.IH [OF rest]
    by (simp only: regex_test.simps match_here_def not_not de_Morgan_disj simp_thms)
qed

lemma lits_map_One: "lits a = map One (map (\<lambda>c. Lit (of_char c)) a)"
  by (simp add: lits_def)

lemma codeBlockPattern_needs_tags:
  "\<not> regex_test (lits ''<pre><code>'') s \<Longrightarrow> \<not> regex_test codeBlockPattern s"
  unfolding codeBlockPattern_def lits_map_One by (rule regex_test_literal_prefix)

text \<open>
  A match of a pattern that starts with literal characters starts with these characters,
  in any letter case; a lazy star over any character takes some number of characters; so
  a match of two literal tags around a lazy group is the opening tag, the text of the
  group and the closing tag.
\<close>

lemma bt_lits_prefix:
  "bt (map One cs @ q) i gs ge t = Some r \<Longrightarrow>
   length cs \<le> length t \<and> list_all2 cmatch cs (take (length cs) t)
   \<and> bt q (i + length cs) gs ge (drop (length cs) t) = Some r"
proof (induction cs arbitrary: i t)
  case Nil
  then show ?case by simp
next
  case (Cons c cs)
  show ?case
  proof (cases t)
    case Nil
    then show ?thesis using Cons.prems by simp
  next
    case (Cons x xs)
    have m: "cmatch c x" and r: "bt (map One cs @ q) (Suc i) gs ge xs = Some r"
      using Cons.prems Cons by (auto split: if_splits)
    from Cons.IH [OF r] show ?thesis using m Cons by simp
  qed
qed

lemma bt_lazy_any:
  "bt (LazyStar AnyChar # q) i gs ge t = Some r \<Longrightarrow>
   \<exists>k\<le>length t. bt q (i + k) gs ge (drop k t) = Some r"
proof (induction t arbitrary: i)
  case Nil
  then show ?case by simp
next
  case (Cons x xs)
  show ?case
  proof (cases "bt q i gs ge (x # xs)")
    case (Some r')
    then have "r' = r" using Cons.prems by simp
    then show ?thesis using Some by (intro exI [of _ 0]) simp
  next
    case None
    then have "bt (LazyStar AnyChar # q) (Suc i) gs ge xs = Some r"
      using Cons.prems by simp
    from Cons.IH [OF this] obtain k where "k \<le> length xs"
      and "bt q (Suc i + k) gs ge (drop k xs) = Some r" by blast
    then show ?thesis by (intro exI [of _ "Suc k"]) simp
  qed
qed

lemma list_all2_cmatch_Lit:
  "list_all2 cmatch (map Lit ls) xs \<longleftrightarrow> map canonicalize xs = map canonicalize ls"
proof (induction ls arbitrary: xs)
  case Nil
  then show ?case by simp
next
  case (Cons l ls)
  then show ?case by (cases xs) auto
qed

lemma lits_map_Lit: "lits a = map One (map Lit (js a))"
  by (simp add: lits_def js_def)

lemma bt_tagged_group:
  assumes "bt (map One A @ ([GroupOpen, LazyStar AnyChar, GroupClose] @ map One B)) 0 0 0 t
             = Some (e, gs, ge)"
  shows "\<exists>k. gs = length A \<and> ge = length A + k \<and> e = length A + (k + length B)
     \<and> list_all2 cmatch A (take (length A) t)
     \<and> list_all2 cmatch B (take (length B) (drop k (drop (length A) t)))"
proof -
  from bt_lits_prefix [OF assms]
  have a: "list_all2 cmatch A (take (length A) t)"
    and 1: "bt ([GroupOpen, LazyStar AnyChar, GroupClose] @ map One B)
              (0 + length A) 0 0 (drop (length A) t) = Some (e, gs, ge)"
    by blast+
  from 1 have "bt (LazyStar AnyChar # GroupClose # map One B)
      (length A) (length A) 0 (drop (length A) t) = Some (e, gs, ge)"
    by simp
  from bt_lazy_any [OF this] obtain k where
    "bt (GroupClose # map One B) (length A + k) (length A) 0 (drop k (drop (length A) t))
       = Some (e, gs, ge)"
    by blast
  then have "bt (map One B @ []) (length A + k) (length A) (length A + k)
      (drop k (drop (length A) t)) = Some (e, gs, ge)"
    by simp
  from bt_lits_prefix [OF this]
  have b: "list_all2 cmatch B (take (length B) (drop k (drop (length A) t)))"
    and 3: "bt [] (length A + k + length B) (length A) (length A + k)
              (drop (length B) (drop k (drop (length A) t))) = Some (e, gs, ge)"
    by blast+
  from 3 have "e = length A + (k + length B)" "gs = length A" "ge = length A + k"
    by simp_all
  with a b show ?thesis by blast
qed

lemma codeBlock_match_shape:
  assumes "match_here codeBlockPattern t = Some (e, gs, ge)"
  shows "\<exists>opening closing. take e t = opening @ take (ge - gs) (drop gs t) @ closing
     \<and> map canonicalize opening = js ''<PRE><CODE>''
     \<and> map canonicalize closing = js ''</CODE></PRE>''"
proof -
  let ?A = "map Lit (js ''<pre><code>'')"
  let ?B = "map Lit (js ''</code></pre>'')"
  from assms have "bt (map One ?A @ ([GroupOpen, LazyStar AnyChar, GroupClose] @ map One ?B))
      0 0 0 t = Some (e, gs, ge)"
    by (simp only: codeBlockPattern_def match_here_def lits_map_Lit)
  from bt_tagged_group [OF this] obtain k where
    gs: "gs = length ?A" and ge: "ge = length ?A + k" and e: "e = length ?A + (k + length ?B)"
    and a: "list_all2 cmatch ?A (take (length ?A) t)"
    and b: "list_all2 cmatch ?B (take (length ?B) (drop k (drop (length ?A) t)))"
    by blast
  have "take e t = take (length ?A) t @ take k (drop (length ?A) t)
      @ take (length ?B) (drop k (drop (length ?A) t))"
    unfolding e by (simp only: take_add)
  moreover have "take (ge - gs) (drop gs t) = take k (drop (length ?A) t)"
    by (simp add: gs ge)
  moreover have "map canonicalize (take (length ?A) t) = js ''<PRE><CODE>''"
    using a by (simp only: list_all2_cmatch_Lit) (simp add: js_def canonicalize_def)
  moreover have "map canonicalize (take (length ?B) (drop k (drop (length ?A) t)))
      = js ''</CODE></PRE>''"
    using b by (simp only: list_all2_cmatch_Lit) (simp add: js_def canonicalize_def)
  ultimately show ?thesis by metis
qed

lemma codeBlock_span_shape:
  assumes "(m, g) \<in> set (match_all codeBlockPattern s)"
  shows "\<exists>opening closing. m = opening @ g @ closing \<and> map canonicalize opening = js ''<PRE><CODE>''
     \<and> map canonicalize closing = js ''</CODE></PRE>''"
proof -
  from match_all_elem_group [OF assms] obtain t e gs ge
    where t: "match_here codeBlockPattern t = Some (e, gs, ge)" and m: "m = take e t"
      and g: "g = take (ge - gs) (drop gs t)" by blast
  from codeBlock_match_shape [OF t] show ?thesis unfolding m g .
qed

section \<open>The code-block rendering step adds and never removes\<close>

lemma codeBlockCallback_pieces:
  "(\<lambda>(gap, m, g). gap @ codeBlockCallback m g)
     = (\<lambda>(gap, m, g). gap @ m @ (if looksLikeHTML g then renderedHTML g else []))"
  by (auto simp: codeBlockCallback_def fun_eq_iff)

text \<open>
  Claim C8 (the step is strictly additive). The code blocks are the spans that the search
  finds, from left to right, each with its content, the text of the group. The input is
  these spans with the text before and after them. The output is the same sequence with
  one change: a span whose content holds both \<open><\<close> and \<open>>\<close> is followed by its
  preview. Every span stands in the output as it stood in the input, and a span without
  such content is followed directly by what followed it in the input: nothing is added
  for it.
\<close>

theorem renderHTMLCodeBlocks_additive:
  "\<exists>ps rest.
      s = concat (map (\<lambda>(gap, m, g). gap @ m) ps) @ rest
    \<and> map (\<lambda>(gap, m, g). (m, g)) ps = match_all codeBlockPattern s
    \<and> renderHTMLCodeBlocks s
        = concat (map (\<lambda>(gap, m, g). gap @ m @ (if looksLikeHTML g then renderedHTML g else []))
            ps) @ rest"
proof -
  from replace_global_pieces [of s codeBlockPattern] obtain ps rest where
    a: "s = concat (map (\<lambda>(gap, m, g). gap @ m) ps) @ rest"
    and b: "map (\<lambda>(gap, m, g). (m, g)) ps = match_all codeBlockPattern s"
    and c: "\<And>f. replace_global codeBlockPattern f s
         = concat (map (\<lambda>(gap, m, g). gap @ f m g) ps) @ rest"
    by blast
  from c [of codeBlockCallback] have "renderHTMLCodeBlocks s
      = concat (map (\<lambda>(gap, m, g). gap @ m @ (if looksLikeHTML g then renderedHTML g else []))
          ps) @ rest"
    by (simp add: renderHTMLCodeBlocks_def codeBlockCallback_pieces)
  with a b show ?thesis by blast
qed

lemma plain_and_markup_blocks:
  \<open>match_all codeBlockPattern
      (js ''<pre><code>plain</code></pre><pre><code><b>Hi</b></code></pre>'')
     = [(js ''<pre><code>plain</code></pre>'', js ''plain''),
        (js ''<pre><code><b>Hi</b></code></pre>'', js ''<b>Hi</b>'')]\<close>
  by (simp add: pattern_defs matcher_defs js_def)

text \<open>
  A block of plain text directly followed by a block with markup: the first is followed
  by the second as before, the preview stands behind the second.
\<close>

theorem renderHTMLCodeBlocks_additive_witness:
  \<open>renderHTMLCodeBlocks
      (js ''<pre><code>plain</code></pre><pre><code><b>Hi</b></code></pre>'')
     = js ''<pre><code>plain</code></pre><pre><code><b>Hi</b></code></pre>''
       @ renderedHTML (js ''<b>Hi</b>'')\<close>
proof -
  let ?s = \<open>js ''<pre><code>plain</code></pre><pre><code><b>Hi</b></code></pre>''\<close>
  let ?m1 = \<open>js ''<pre><code>plain</code></pre>''\<close>
  let ?m2 = \<open>js ''<pre><code><b>Hi</b></code></pre>''\<close>
  from renderHTMLCodeBlocks_additive [of ?s] obtain ps rest where
    a: "?s = concat (map (\<lambda>(gap, m, g). gap @ m) ps) @ rest"
    and b: "map (\<lambda>(gap, m, g). (m, g)) ps = match_all codeBlockPattern ?s"
    and c: "renderHTMLCodeBlocks ?s
        = concat (map (\<lambda>(gap, m, g). gap @ m @ (if looksLikeHTML g then renderedHTML g else []))
            ps) @ rest"
    by blast
  from b have b': "map (\<lambda>(gap, m, g). (m, g)) ps = [(?m1, js ''plain''), (?m2, js ''<b>Hi</b>'')]"
    by (simp only: plain_and_markup_blocks)
  have l: "length ?s = length ?m1 + length ?m2" by (simp add: js_def)
  from two_pieces [OF a b' l]
  have ps: "ps = [([], ?m1, js ''plain''), ([], ?m2, js ''<b>Hi</b>'')]" and rest: "rest = []"
    by simp_all
  have plain: "\<not> looksLikeHTML (js ''plain'')"
    by (simp add: looksLikeHTML_def js_def sublist_code)
  have markup: "looksLikeHTML (js ''<b>Hi</b>'')"
    by (simp add: looksLikeHTML_def js_def sublist_code)
  have s: "?s = ?m1 @ ?m2" by (simp add: js_def)
  from c show ?thesis unfolding ps rest s by (simp add: plain markup)
qed

text \<open>
  Claim C10 (only the literal tag sequence counts: a code block whose \<open>pre\<close> or
  \<open>code\<close> tag carries an attribute is never given a preview, for every input). A
  block with an attribute that stands between a literal \<open><pre><code>\<close> and the next
  \<open></code></pre>\<close> is part of the span that the search finds there. In the input
  below the first block is closed by \<open></code> </pre>\<close>, with a space, so the span runs
  on to the end of the second block, the one with the attribute. Its content holds
  markup, and the preview that follows the second block shows the content of both.
\<close>

theorem renderHTMLCodeBlocks_preview_behind_attributed_block:
  \<open>renderHTMLCodeBlocks
      (js ''<pre><code>a</code> </pre><pre class="x"><code><b>hi</b></code></pre>'')
     = js ''<pre><code>a</code> </pre><pre class="x"><code><b>hi</b></code></pre>''
       @ renderedHTML (js ''a</code> </pre><pre class="x"><code><b>hi</b>'')\<close>
  by (simp add: renderHTMLCodeBlocks_def codeBlockCallback_def looksLikeHTML_def
      pattern_defs matcher_defs js_def sublist_code)

text \<open>
  Claim C10 as amended. The spans that the step considers are those that the search
  finds: each is an opening \<open><pre><code>\<close> in any letter case and without attributes,
  the content up to the next closing \<open></code></pre>\<close>, and that closing. For every
  input the output is the input with the preview of a span inserted directly behind it
  when its content holds both \<open><\<close> and \<open>>\<close>; the text outside the spans is
  returned as it is, so a block with an attribute that lies there gets no preview. An
  input without a literal \<open><pre><code>\<close> has no span at all and is returned unchanged,
  whatever stands between its tags.
\<close>

theorem renderHTMLCodeBlocks_previews_follow_literal_spans:
  "(\<exists>ps rest.
      s = concat (map (\<lambda>(gap, m, g). gap @ m) ps) @ rest
    \<and> map (\<lambda>(gap, m, g). (m, g)) ps = match_all codeBlockPattern s
    \<and> renderHTMLCodeBlocks s
        = concat (map (\<lambda>(gap, m, g). gap @ m @ (if looksLikeHTML g then renderedHTML g else []))
            ps) @ rest
    \<and> (\<forall>(gap, m, g) \<in> set ps.
          \<exists>opening closing. m = opening @ g @ closing
            \<and> map canonicalize opening = js ''<PRE><CODE>''
            \<and> map canonicalize closing = js ''</CODE></PRE>''))
   \<and> (\<not> regex_test (lits ''<pre><code>'') s \<longrightarrow> renderHTMLCodeBlocks s = s)"
proof (intro conjI impI)
  from replace_global_pieces [of s codeBlockPattern] obtain ps rest where
    a: "s = concat (map (\<lambda>(gap, m, g). gap @ m) ps) @ rest"
    and b: "map (\<lambda>(gap, m, g). (m, g)) ps = match_all codeBlockPattern s"
    and c: "\<And>f. replace_global codeBlockPattern f s
         = concat (map (\<lambda>(gap, m, g). gap @ f m g) ps) @ rest"
    by blast
  from c [of codeBlockCallback] have d: "renderHTMLCodeBlocks s
      = concat (map (\<lambda>(gap, m, g). gap @ m @ (if looksLikeHTML g then renderedHTML g else []))
          ps) @ rest"
    by (simp add: renderHTMLCodeBlocks_def codeBlockCallback_pieces)
  have e: "\<forall>(gap, m, g) \<in> set ps.
          \<exists>opening closing. m = opening @ g @ closing
            \<and> map canonicalize opening = js ''<PRE><CODE>''
            \<and> map canonicalize closing = js ''</CODE></PRE>''"
  proof clarify
    fix gap m g
    assume "(gap, m, g) \<in> set ps"
    then have "(m, g) \<in> set (map (\<lambda>(gap, m, g). (m, g)) ps)" by force
    then have "(m, g) \<in> set (match_all codeBlockPattern s)" by (simp only: b)
    then show "\<exists>opening closing. m = opening @ g @ closing
            \<and> map canonicalize opening = js ''<PRE><CODE>''
            \<and> map canonicalize closing = js ''</CODE></PRE>''"
      by (rule codeBlock_span_shape)
  qed
  from a b d e show "\<exists>ps rest.
      s = concat (map (\<lambda>(gap, m, g). gap @ m) ps) @ rest
    \<and> map (\<lambda>(gap, m, g). (m, g)) ps = match_all codeBlockPattern s
    \<and> renderHTMLCodeBlocks s
        = concat (map (\<lambda>(gap, m, g). gap @ m @ (if looksLikeHTML g then renderedHTML g else []))
            ps) @ rest
    \<and> (\<forall>(gap, m, g) \<in> set ps.
          \<exists>opening closing. m = opening @ g @ closing
            \<and> map canonicalize opening = js ''<PRE><CODE>''
            \<and> map canonicalize closing = js ''</CODE></PRE>'')" by blast
next
  assume "\<not> regex_test (lits ''<pre><code>'') s"
  then have "match_all codeBlockPattern s = []"
    by (simp add: match_all_empty_iff codeBlockPattern_needs_tags)
  then show "renderHTMLCodeBlocks s = s"
    unfolding renderHTMLCodeBlocks_def by (intro replace_global_unchanged) simp
qed

lemma upper_case_markup_block:
  \<open>match_all codeBlockPattern (js ''<PRE><CODE><b>x</b></CODE></PRE>'')
     = [(js ''<PRE><CODE><b>x</b></CODE></PRE>'', js ''<b>x</b>'')]\<close>
  by (simp add: pattern_defs matcher_defs js_def)

text \<open>
  A block with an attribute on \<open>pre\<close> whose content holds markup, alone in the input,
  is returned unchanged; a block with the literal tags in upper case gets its preview.
\<close>

theorem renderHTMLCodeBlocks_previews_follow_literal_spans_witness:
  \<open>renderHTMLCodeBlocks (js ''<pre class="x"><code><b>hi</b></code></pre>'')
     = js ''<pre class="x"><code><b>hi</b></code></pre>''
   \<and> renderHTMLCodeBlocks (js ''<PRE><CODE><b>x</b></CODE></PRE>'')
     = js ''<PRE><CODE><b>x</b></CODE></PRE>'' @ renderedHTML (js ''<b>x</b>'')\<close>
proof
  let ?s = \<open>js ''<pre class="x"><code><b>hi</b></code></pre>''\<close>
  have "\<not> regex_test (lits ''<pre><code>'') ?s"
    by (simp add: pattern_defs matcher_defs js_def)
  with renderHTMLCodeBlocks_previews_follow_literal_spans [of ?s]
  show "renderHTMLCodeBlocks ?s = ?s" by blast
next
  let ?s = \<open>js ''<PRE><CODE><b>x</b></CODE></PRE>''\<close>
  let ?g = \<open>js ''<b>x</b>''\<close>
  from renderHTMLCodeBlocks_previews_follow_literal_spans [of ?s] obtain ps rest where
    a: "?s = concat (map (\<lambda>(gap, m, g). gap @ m) ps) @ rest"
    and b: "map (\<lambda>(gap, m, g). (m, g)) ps = match_all codeBlockPattern ?s"
    and c: "renderHTMLCodeBlocks ?s
        = concat (map (\<lambda>(gap, m, g). gap @ m @ (if looksLikeHTML g then renderedHTML g else []))
            ps) @ rest"
    by blast
  from b have b': "map (\<lambda>(gap, m, g). (m, g)) ps = [(?s, ?g)]"
    by (simp only: upper_case_markup_block)
  from single_piece [OF a b'] have ps: "ps = [([], ?s, ?g)]" and rest: "rest = []"
    by simp_all
  have "looksLikeHTML ?g" by (simp add: looksLikeHTML_def js_def sublist_code)
  with c show "renderHTMLCodeBlocks ?s = ?s @ renderedHTML ?g" unfolding ps rest by simp
qed

section \<open>Which wrappers the wrapper-fix step removes\<close>

text \<open>
  Claim C5 (a container div that carries its own non-trivial style attribute is never
  removed). The first pattern asks only for the class \<open>content\<close>: a container with
  that class and a style of its own around a centred div is replaced by the inner div.
\<close>

theorem fixCenteringIssues_removes_styled_content_wrapper:
  \<open>fixCenteringIssues
      (js ''<div class="content" style="color:red"><div style="margin:auto">X</div></div>'')
     = js ''<div style="margin:auto">X</div>''\<close>
  by (simp add: centering_defs pattern_defs matcher_defs js_def)

text \<open>
  Claim C5 as amended. The first pass replaces every match of the pattern with the class
  \<open>content\<close> by its inner div, the text of the group, whatever style the container
  carries; the text outside the matches stays. The second pass works on the result of the
  first: every match of the general pattern is left as it is or replaced by its inner
  div, and the text outside the matches stays. A match is left as it is when the text of
  its container, the match without the inner div and the closing tag, holds \<open>style=\<close>
  and neither \<open>style=""\<close> nor \<open>style=''\<close>: a container with a style of its own,
  written in this way, is not removed by the second pass. Nothing is said here about a
  container whose style attribute is written in another way.
\<close>

theorem fixCenteringIssues_keeps_styled_wrappers:
  \<open>(\<exists>ps rest.
      s = concat (map (\<lambda>(gap, m, g). gap @ m) ps) @ rest
    \<and> map (\<lambda>(gap, m, g). (m, g)) ps = match_all centeringPattern s
    \<and> fixContentWrappers s = concat (map (\<lambda>(gap, m, g). gap @ g) ps) @ rest)
   \<and> (\<exists>ps rest.
      fixContentWrappers s = concat (map (\<lambda>(gap, m, g). gap @ m) ps) @ rest
    \<and> map (\<lambda>(gap, m, g). (m, g)) ps = match_all generalCenteringPattern (fixContentWrappers s)
    \<and> fixCenteringIssues s = concat (map (\<lambda>(gap, m, g). gap @ generalCallback m g) ps) @ rest
    \<and> (\<forall>(gap, m, g) \<in> set ps.
          (generalCallback m g = m \<or> generalCallback m g = g)
          \<and> (sublist (js ''style='') (wrapperDiv m g)
               \<and> \<not> sublist (js ''style=""'') (wrapperDiv m g)
               \<and> \<not> sublist (js ''style='' @ [39, 39]) (wrapperDiv m g)
             \<longrightarrow> generalCallback m g = m)))\<close>
proof (intro conjI)
  from replace_global_pieces [of s centeringPattern] obtain ps rest where
    a: "s = concat (map (\<lambda>(gap, m, g). gap @ m) ps) @ rest"
    and b: "map (\<lambda>(gap, m, g). (m, g)) ps = match_all centeringPattern s"
    and c: "\<And>f. replace_global centeringPattern f s
         = concat (map (\<lambda>(gap, m, g). gap @ f m g) ps) @ rest"
    by blast
  have "fixContentWrappers s = replace_global centeringPattern firstGroup s"
  proof (cases "regex_test centeringPattern s")
    case True
    then show ?thesis by (simp add: fixContentWrappers_def)
  next
    case False
    then have "match_all centeringPattern s = []" by (simp add: match_all_empty_iff)
    then have "replace_global centeringPattern firstGroup s = s"
      by (intro replace_global_unchanged) simp
    then show ?thesis using False by (simp add: fixContentWrappers_def)
  qed
  with c [of firstGroup]
  have "fixContentWrappers s = concat (map (\<lambda>(gap, m, g). gap @ g) ps) @ rest"
    by (simp add: firstGroup_def)
  with a b show "\<exists>ps rest.
      s = concat (map (\<lambda>(gap, m, g). gap @ m) ps) @ rest
    \<and> map (\<lambda>(gap, m, g). (m, g)) ps = match_all centeringPattern s
    \<and> fixContentWrappers s = concat (map (\<lambda>(gap, m, g). gap @ g) ps) @ rest" by blast
next
  let ?t = "fixContentWrappers s"
  from replace_global_pieces [of ?t generalCenteringPattern] obtain ps rest where
    a: "?t = concat (map (\<lambda>(gap, m, g). gap @ m) ps) @ rest"
    and b: "map (\<lambda>(gap, m, g). (m, g)) ps = match_all generalCenteringPattern ?t"
    and c: "\<And>f. replace_global generalCenteringPattern f ?t
         = concat (map (\<lambda>(gap, m, g). gap @ f m g) ps) @ rest"
    by blast
  have "fixCenteringIssues s = replace_global generalCenteringPattern generalCallback ?t"
  proof (cases "match_all generalCenteringPattern ?t = []")
    case True
    then have "replace_global generalCenteringPattern generalCallback ?t = ?t"
      by (intro replace_global_unchanged) simp
    then show ?thesis using True by (simp add: fixCenteringIssues_def fixGeneralWrappers_def)
  next
    case False
    then show ?thesis by (simp add: fixCenteringIssues_def fixGeneralWrappers_def)
  qed
  with c [of generalCallback]
  have d: "fixCenteringIssues s
      = concat (map (\<lambda>(gap, m, g). gap @ generalCallback m g) ps) @ rest"
    by simp
  have e: \<open>\<forall>(gap, m, g) \<in> set ps.
          (generalCallback m g = m \<or> generalCallback m g = g)
          \<and> (sublist (js ''style='') (wrapperDiv m g)
               \<and> \<not> sublist (js ''style=""'') (wrapperDiv m g)
               \<and> \<not> sublist (js ''style='' @ [39, 39]) (wrapperDiv m g)
             \<longrightarrow> generalCallback m g = m)\<close>
    by (auto simp: generalCallback_def hasMinimalStyling_def)
  from a b d e show \<open>\<exists>ps rest.
      fixContentWrappers s = concat (map (\<lambda>(gap, m, g). gap @ m) ps) @ rest
    \<and> map (\<lambda>(gap, m, g). (m, g)) ps = match_all generalCenteringPattern (fixContentWrappers s)
    \<and> fixCenteringIssues s = concat (map (\<lambda>(gap, m, g). gap @ generalCallback m g) ps) @ rest
    \<and> (\<forall>(gap, m, g) \<in> set ps.
          (generalCallback m g = m \<or> generalCallback m g = g)
          \<and> (sublist (js ''style='') (wrapperDiv m g)
               \<and> \<not> sublist (js ''style=""'') (wrapperDiv m g)
               \<and> \<not> sublist (js ''style='' @ [39, 39]) (wrapperDiv m g)
             \<longrightarrow> generalCallback m g = m))\<close> by blast
qed

lemma styled_wrapper_matches:
  \<open>match_all generalCenteringPattern
      (js ''<div style="color:red"><div style="margin:auto">X</div></div>'')
     = [(js ''<div style="color:red"><div style="margin:auto">X</div></div>'',
         js ''<div style="margin:auto">X</div>'')]\<close>
  by (simp add: pattern_defs matcher_defs js_def)

lemma styled_wrapper_first_pass:
  \<open>fixContentWrappers (js ''<div style="color:red"><div style="margin:auto">X</div></div>'')
     = js ''<div style="color:red"><div style="margin:auto">X</div></div>''\<close>
  by (simp add: fixContentWrappers_def pattern_defs matcher_defs js_def)

lemma styled_wrapper_styled:
  \<open>sublist (js ''style='')
      (wrapperDiv (js ''<div style="color:red"><div style="margin:auto">X</div></div>'')
        (js ''<div style="margin:auto">X</div>''))
   \<and> \<not> sublist (js ''style=""'')
      (wrapperDiv (js ''<div style="color:red"><div style="margin:auto">X</div></div>'')
        (js ''<div style="margin:auto">X</div>''))
   \<and> \<not> sublist (js ''style='' @ [39, 39])
      (wrapperDiv (js ''<div style="color:red"><div style="margin:auto">X</div></div>'')
        (js ''<div style="margin:auto">X</div>''))\<close>
  by (simp add: wrapperDiv_def stripTrailingDiv_def replace_first_def js_def sublist_code
      suffix_def)

lemma content_wrapper_matches:
  \<open>match_all centeringPattern
      (js ''<div class="content" style="color:red"><div style="margin:auto">X</div></div>'')
     = [(js ''<div class="content" style="color:red"><div style="margin:auto">X</div></div>'',
         js ''<div style="margin:auto">X</div>'')]\<close>
  by (simp add: pattern_defs matcher_defs js_def)

text \<open>
  A styled container without the class is kept; a styled container with the class is
  replaced by its inner div in the first pass.
\<close>

theorem fixCenteringIssues_keeps_styled_wrappers_witness:
  \<open>fixCenteringIssues (js ''<div style="color:red"><div style="margin:auto">X</div></div>'')
     = js ''<div style="color:red"><div style="margin:auto">X</div></div>''
   \<and> fixContentWrappers
        (js ''<div class="content" style="color:red"><div style="margin:auto">X</div></div>'')
     = js ''<div style="margin:auto">X</div>''\<close>
proof
  let ?s = \<open>js ''<div style="color:red"><div style="margin:auto">X</div></div>''\<close>
  let ?g = \<open>js ''<div style="margin:auto">X</div>''\<close>
  from fixCenteringIssues_keeps_styled_wrappers [of ?s] obtain ps rest where
    a: "fixContentWrappers ?s = concat (map (\<lambda>(gap, m, g). gap @ m) ps) @ rest"
    and b: "map (\<lambda>(gap, m, g). (m, g)) ps
         = match_all generalCenteringPattern (fixContentWrappers ?s)"
    and c: "fixCenteringIssues ?s
         = concat (map (\<lambda>(gap, m, g). gap @ generalCallback m g) ps) @ rest"
    and d: \<open>\<forall>(gap, m, g) \<in> set ps.
          (generalCallback m g = m \<or> generalCallback m g = g)
          \<and> (sublist (js ''style='') (wrapperDiv m g)
               \<and> \<not> sublist (js ''style=""'') (wrapperDiv m g)
               \<and> \<not> sublist (js ''style='' @ [39, 39]) (wrapperDiv m g)
             \<longrightarrow> generalCallback m g = m)\<close>
    by blast
  from a have a': "?s = concat (map (\<lambda>(gap, m, g). gap @ m) ps) @ rest"
    by (simp only: styled_wrapper_first_pass)
  from b have b': "map (\<lambda>(gap, m, g). (m, g)) ps = [(?s, ?g)]"
    by (simp only: styled_wrapper_first_pass styled_wrapper_matches)
  from single_piece [OF a' b'] have ps: "ps = [([], ?s, ?g)]" and rest: "rest = []"
    by simp_all
  from d ps styled_wrapper_styled have "generalCallback ?s ?g = ?s" by simp
  with c ps rest show "fixCenteringIssues ?s = ?s" by simp
next
  let ?s = \<open>js ''<div class="content" style="color:red"><div style="margin:auto">X</div></div>''\<close>
  let ?g = \<open>js ''<div style="margin:auto">X</div>''\<close>
  from fixCenteringIssues_keeps_styled_wrappers [of ?s] obtain ps rest where
    a: "?s = concat (map (\<lambda>(gap, m, g). gap @ m) ps) @ rest"
    and b: "map (\<lambda>(gap, m, g). (m, g)) ps = match_all centeringPattern ?s"
    and c: "fixContentWrappers ?s = concat (map (\<lambda>(gap, m, g). gap @ g) ps) @ rest"
    by blast
  from b have b': "map (\<lambda>(gap, m, g). (m, g)) ps = [(?s, ?g)]"
    by (simp only: content_wrapper_matches)
  from single_piece [OF a b'] have "ps = [([], ?s, ?g)]" and "rest = []"
    by simp_all
  with c show "fixContentWrappers ?s = ?g" by simp
qed

section \<open>A match stays a match when the input goes on\<close>

text \<open>
  The patterns have no anchor, so a match at the head of a string is still there when more
  text follows; which match is the first may change, that there is one does not.
\<close>

lemma bt_extend:
  "bt p i gs ge s = Some r \<Longrightarrow> \<exists>r'. bt p i' gs' ge' (s @ t) = Some r'"
proof (induction p i gs ge s arbitrary: i' gs' ge' r rule: bt.induct)
  case (1 i gs ge s)
  then show ?case by simp
next
  case (2 c ts i gs ge)
  then show ?case by simp
next
  case (3 c ts i gs ge x xs)
  then show ?case by (auto split: if_splits)
next
  case (4 c ts i gs ge)
  from 4 have "\<exists>r'. bt ts i' gs' ge' ([] @ t) = Some r'" by simp
  then show ?case by (cases t) (auto split: option.splits)
next
  case (5 c ts i gs ge x xs)
  show ?case
  proof (cases "cmatch c x")
    case False
    then show ?thesis using 5 by auto
  next
    case True
    show ?thesis
    proof (cases "bt (Star c # ts) (Suc i) gs ge xs")
      case None
      then have "bt ts i gs ge (x # xs) = Some r" using "5.prems" True by simp
      from "5.IH"(2) [OF True None this, of i' gs' ge']
      show ?thesis using True by (auto split: option.splits)
    next
      case (Some a)
      from "5.IH"(1) [OF True Some, of "Suc i'" gs' ge']
      show ?thesis using True by (auto split: option.splits)
    qed
  qed
next
  case (6 c ts i gs ge)
  from 6 have "\<exists>r'. bt ts i' gs' ge' ([] @ t) = Some r'" by simp
  then show ?case by (cases t) (auto split: option.splits)
next
  case (7 c ts i gs ge x xs)
  show ?case
  proof (cases "bt ts i gs ge (x # xs)")
    case (Some a)
    from "7.IH"(1) [OF Some, of i' gs' ge']
    show ?thesis by (auto split: option.splits)
  next
    case None
    then have c: "cmatch c x" and b: "bt (LazyStar c # ts) (Suc i) gs ge xs = Some r"
      using "7.prems" by (auto split: if_splits)
    from "7.IH"(2) [OF None c b, of "Suc i'" gs' ge']
    show ?thesis using c by (auto split: option.splits)
  qed
next
  case (8 ts i gs ge s)
  then show ?case by simp
next
  case (9 ts i gs ge s)
  then show ?case by simp
qed

lemma match_here_extend:
  "match_here p s \<noteq> None \<Longrightarrow> match_here p (s @ t) \<noteq> None"
  unfolding match_here_def using bt_extend by (cases "bt p 0 0 0 s") fastforce+

lemma regex_test_append_left: "regex_test p a \<Longrightarrow> regex_test p (a @ b)"
proof (induction a)
  case Nil
  then have "match_here p ([] @ b) \<noteq> None" by (intro match_here_extend) simp
  then show ?case by (cases b) simp_all
next
  case (Cons c a)
  show ?case
  proof (cases "match_here p (c # a) \<noteq> None")
    case True
    then have "match_here p ((c # a) @ b) \<noteq> None" by (rule match_here_extend)
    then show ?thesis by simp
  next
    case False
    then have "regex_test p a" using Cons.prems by simp
    then show ?thesis using Cons.IH by simp
  qed
qed

lemma regex_test_append_right: "regex_test p b \<Longrightarrow> regex_test p (a @ b)"
  by (induction a) simp_all

lemma shellHead_hasHTML: "hasHTML shellHead"
  by (simp add: hasHTML_def shellHead_def js_def lits_def match_here_def canonicalize_def)

lemma shellHead_hasHead: "hasHead shellHead"
  by (simp add: hasHead_def shellHead_def js_def lits_def match_here_def canonicalize_def)

lemma shellBody_hasBody: "hasBody shellBody"
  by (simp add: hasBody_def shellBody_def js_def lits_def match_here_def canonicalize_def)

lemma wrapped_complete:
  "hasHTML (shellHead @ css @ shellBody @ h @ shellEnd)
   \<and> hasHead (shellHead @ css @ shellBody @ h @ shellEnd)
   \<and> hasBody (shellHead @ css @ shellBody @ h @ shellEnd)"
proof (intro conjI)
  show "hasHTML (shellHead @ css @ shellBody @ h @ shellEnd)"
    using shellHead_hasHTML unfolding hasHTML_def by (rule regex_test_append_left)
  show "hasHead (shellHead @ css @ shellBody @ h @ shellEnd)"
    using shellHead_hasHead unfolding hasHead_def by (rule regex_test_append_left)
  have "regex_test (lits ''<body'' @ [Star (NoneOf (js ''>''))] @ lits ''>'')
          (shellBody @ h @ shellEnd)"
    using shellBody_hasBody unfolding hasBody_def by (rule regex_test_append_left)
  then have "regex_test (lits ''<body'' @ [Star (NoneOf (js ''>''))] @ lits ''>'')
          ((shellHead @ css) @ shellBody @ h @ shellEnd)"
    by (rule regex_test_append_right)
  then show "hasBody (shellHead @ css @ shellBody @ h @ shellEnd)"
    by (simp add: hasBody_def)
qed

section \<open>Occurrences of a text\<close>

lemma countOccurrences_skip:
  "a \<notin> set xs \<Longrightarrow> countOccurrences (a # p) (xs @ ys) = countOccurrences (a # p) ys"
  by (induction xs) auto

lemma countOccurrences_separator:
  "c \<notin> set p \<Longrightarrow> p \<noteq> [] \<Longrightarrow>
   countOccurrences p (xs @ c # ys) = countOccurrences p xs + countOccurrences p ys"
proof (induction xs)
  case Nil
  then have "\<not> prefix p (c # ys)" by (cases p) auto
  then show ?case using Nil by simp
next
  case (Cons x xs)
  have "prefix p (x # xs @ c # ys) \<longleftrightarrow> prefix p (x # xs)"
  proof
    assume "prefix p (x # xs @ c # ys)"
    then have "prefix p ((x # xs) @ c # ys)" by simp
    then consider "prefix p (x # xs)" | us where "p = (x # xs) @ us" "prefix us (c # ys)"
      unfolding prefix_append by blast
    then show "prefix p (x # xs)"
    proof cases
      case 1
      then show ?thesis .
    next
      case 2
      show ?thesis
      proof (cases us)
        case Nil
        then show ?thesis using 2 by simp
      next
        case (Cons u us')
        then have "u = c" using 2 by simp
        then have "c \<in> set p" using 2 Cons by simp
        then show ?thesis using Cons.prems by simp
      qed
    qed
  next
    assume "prefix p (x # xs)"
    then show "prefix p (x # xs @ c # ys)"
      by (metis append_Cons prefix_prefix)
  qed
  then show ?case using Cons by simp
qed

lemma sublist_iff_countOccurrences: "sublist p s \<longleftrightarrow> 0 < countOccurrences p s"
  by (induction s) (auto simp: sublist_Cons_right)

lemma indexOf_first:
  "p \<noteq> [] \<Longrightarrow> countOccurrences p (xs @ butlast p) = 0
   \<Longrightarrow> indexOf p (xs @ p @ zs) = Some (length xs)"
proof (induction xs)
  case Nil
  then show ?case by (cases p) auto
next
  case (Cons x xs)
  have np: "\<not> prefix p (x # xs @ butlast p)" and rest: "countOccurrences p (xs @ butlast p) = 0"
    using Cons.prems(2) by (auto split: if_splits)
  have "\<not> prefix p (x # xs @ p @ zs)"
  proof
    assume a: "prefix p (x # xs @ p @ zs)"
    have b: "prefix (x # xs @ butlast p) (x # xs @ p @ zs)"
      by (simp add: prefix_def) (metis Cons.prems(1) append.assoc append_butlast_last_id)
    have "length p \<le> length (x # xs @ butlast p)" by simp
    with a b have "prefix p (x # xs @ butlast p)"
      by (metis prefix_length_prefix)
    with np show False by simp
  qed
  then show ?case using Cons.IH [OF Cons.prems(1) rest] by simp
qed

lemma getSubstitution_plain: "36 \<notin> set r \<Longrightarrow> getSubstitution m b a r = r"
  by (induction m b a r rule: getSubstitution.induct) auto

lemma replace_first_at:
  assumes "p \<noteq> []" "countOccurrences p (xs @ butlast p) = 0" "36 \<notin> set r"
  shows "replace_first p r (xs @ p @ zs) = xs @ r @ zs"
  using indexOf_first [OF assms(1,2), of zs] getSubstitution_plain [OF assms(3)]
  by (simp add: replace_first_def)

declare digits.simps [simp del]

section \<open>The characters of the generated style block\<close>

lemma digits_chars: "set (digits n) \<subseteq> {48..57}"
proof (induction n rule: digits.induct)
  case (1 n)
  show ?case
  proof (cases "n < 10")
    case True
    then show ?thesis by (subst digits.simps) auto
  next
    case False
    have "n mod 10 < 10" by simp
    then have "48 + n mod 10 \<in> {48..57}" by auto
    then show ?thesis using 1 False by (subst digits.simps) auto
  qed
qed

lemma numberToString_chars: "set (numberToString n) \<subseteq> insert 45 {48..57}"
  using digits_chars by (auto simp: numberToString_def)

lemma numberToString_free [simp]:
  "60 \<notin> set (numberToString n)" "36 \<notin> set (numberToString n)"
  using numberToString_chars [of n] by auto

lemma fontImport_free [simp]:
  "60 \<notin> set (fontImport config)" "36 \<notin> set (fontImport config)"
  by (simp_all add: fontImport_def js_def)

lemma fontFamily_free [simp]:
  "60 \<notin> set (fontFamily config)" "36 \<notin> set (fontFamily config)"
  by (simp_all add: fontFamily_def js_def)

lemma css_parts_no_tag [simp]:
  "60 \<notin> set css_part2" "60 \<notin> set css_part3" "60 \<notin> set css_part4"
  "60 \<notin> set css_part5" "60 \<notin> set css_part6"
  by (simp_all add: css_part2_def css_part3_def css_part4_def css_part5_def css_part6_def js_def)

lemma css_parts_no_dollar [simp]:
  "36 \<notin> set css_part1" "36 \<notin> set css_part2" "36 \<notin> set css_part3" "36 \<notin> set css_part4"
  "36 \<notin> set css_part5" "36 \<notin> set css_part6" "36 \<notin> set css_part7"
  by (simp_all add: css_part1_def css_part2_def css_part3_def css_part4_def css_part5_def
      css_part6_def css_part7_def js_def)

lemma generateCSS_no_dollar: "36 \<notin> set (generateCSS config)"
  by (simp add: generateCSS_def)

section \<open>Tags in the shell and in the style block\<close>

lemma countOccurrences_skip_tag:
  "60 \<notin> set xs \<Longrightarrow>
   countOccurrences (js (CHR ''<'' # p)) (xs @ ys) = countOccurrences (js (CHR ''<'' # p)) ys"
  by (simp add: js_def countOccurrences_skip)

lemma closeHead_shellHead:
  "countOccurrences (js ''</head>'') (shellHead @ ys) = countOccurrences (js ''</head>'') ys"
  by (simp add: shellHead_def js_def)

lemma closeHead_css_part1:
  "countOccurrences (js ''</head>'') (css_part1 @ ys) = countOccurrences (js ''</head>'') ys"
  by (simp add: css_part1_def js_def)

lemma closeHead_css_part7:
  "countOccurrences (js ''</head>'') (css_part7 @ ys) = countOccurrences (js ''</head>'') ys"
  by (simp add: css_part7_def js_def)

lemma closeHead_generateCSS:
  "countOccurrences (js ''</head>'') (generateCSS config @ ys)
     = countOccurrences (js ''</head>'') ys"
  by (simp add: generateCSS_def closeHead_css_part1 closeHead_css_part7
      countOccurrences_skip_tag)

lemma styleTag_shellHead:
  "countOccurrences (js ''<style>'') (shellHead @ ys) = countOccurrences (js ''<style>'') ys"
  by (simp add: shellHead_def js_def)

lemma styleTag_css_part1:
  "countOccurrences (js ''<style>'') (css_part1 @ ys) = 1 + countOccurrences (js ''<style>'') ys"
  by (simp add: css_part1_def js_def)

lemma styleTag_css_part7:
  "countOccurrences (js ''<style>'') (css_part7 @ ys) = countOccurrences (js ''<style>'') ys"
  by (simp add: css_part7_def js_def)

lemma styleTag_generateCSS:
  "countOccurrences (js ''<style>'') (generateCSS config @ ys)
     = 1 + countOccurrences (js ''<style>'') ys"
  by (simp add: generateCSS_def styleTag_css_part1 styleTag_css_part7
      countOccurrences_skip_tag)

lemma styleTag_shellBody:
  "countOccurrences (js ''<style>'') (shellBody @ ys) = countOccurrences (js ''<style>'') ys"
  by (simp add: shellBody_def js_def)

lemma htmlTag_shellHead:
  "countOccurrences (js ''<html'') (shellHead @ ys) = 1 + countOccurrences (js ''<html'') ys"
  by (simp add: shellHead_def js_def)

lemma htmlTag_css_part1:
  "countOccurrences (js ''<html'') (css_part1 @ ys) = countOccurrences (js ''<html'') ys"
  by (simp add: css_part1_def js_def)

lemma htmlTag_css_part7:
  "countOccurrences (js ''<html'') (css_part7 @ ys) = countOccurrences (js ''<html'') ys"
  by (simp add: css_part7_def js_def)

lemma htmlTag_generateCSS:
  "countOccurrences (js ''<html'') (generateCSS config @ ys) = countOccurrences (js ''<html'') ys"
  by (simp add: generateCSS_def htmlTag_css_part1 htmlTag_css_part7
      countOccurrences_skip_tag)

lemma htmlTag_shellBody:
  "countOccurrences (js ''<html'') (shellBody @ ys) = countOccurrences (js ''<html'') ys"
  by (simp add: shellBody_def js_def)

lemma shellEnd_newline: "shellEnd = 10 # js ''</body>\<newline></html>''"
  by (simp add: shellEnd_def js_def)

lemma styleTag_fragment_shellEnd:
  "countOccurrences (js ''<style>'') (h @ shellEnd) = countOccurrences (js ''<style>'') h"
proof -
  have a: "10 \<notin> set (js ''<style>'')" "js ''<style>'' \<noteq> []"
    by (simp_all add: js_def)
  have b: "countOccurrences (js ''<style>'') (js ''</body>\<newline></html>'') = 0"
    by (simp add: js_def)
  show ?thesis
    unfolding shellEnd_newline using countOccurrences_separator [OF a] b by simp
qed

lemma htmlTag_fragment_shellEnd:
  "countOccurrences (js ''<html'') (h @ shellEnd) = countOccurrences (js ''<html'') h"
proof -
  have a: "10 \<notin> set (js ''<html'')" "js ''<html'' \<noteq> []"
    by (simp_all add: js_def)
  have b: "countOccurrences (js ''<html'') (js ''</body>\<newline></html>'') = 0"
    by (simp add: js_def)
  show ?thesis
    unfolding shellEnd_newline using countOccurrences_separator [OF a] b by simp
qed

lemma shellBody_closeHead:
  "shellBody = 10 # js ''</head>'' @ js ''\<newline><body>\<newline>    ''"
  by (simp add: shellBody_def js_def)

lemma injectStyles_partial:
  "\<not> (hasHTML h \<and> hasHead h \<and> hasBody h) \<Longrightarrow>
   injectStyles h config = shellHead @ generateCSS config @ shellBody @ h @ shellEnd"
  by (auto simp: injectStyles_def)

lemma injectStyles_wrapped:
  "injectStyles (shellHead @ generateCSS config @ shellBody @ h @ shellEnd) config
     = shellHead @ generateCSS config @ [10] @ generateCSS config @ shellBody @ h @ shellEnd"
proof -
  let ?p = "js ''</head>''"
  let ?css = "generateCSS config"
  let ?xs = "shellHead @ ?css @ [10]"
  let ?zs = "js ''\<newline><body>\<newline>    '' @ h @ shellEnd"
  let ?W = "shellHead @ ?css @ shellBody @ h @ shellEnd"
  have W: "?W = ?xs @ ?p @ ?zs" by (simp add: shellBody_closeHead)
  have p: "?p \<noteq> []" by (simp add: js_def)
  have bl: "butlast ?p = js ''</head''" by (simp add: js_def)
  have "countOccurrences ?p (10 # js ''</head'') = 0" by (simp add: js_def)
  then have none: "countOccurrences ?p (?xs @ butlast ?p) = 0"
    by (simp add: bl closeHead_shellHead closeHead_generateCSS)
  have plain: "36 \<notin> set (?css @ js ''\<newline></head>'')"
    by (simp add: generateCSS_no_dollar) (simp add: js_def)
  have sb: "shellBody = js ''\<newline></head>'' @ js ''\<newline><body>\<newline>    ''"
    by (simp add: shellBody_def js_def)
  have "injectStyles ?W config = replace_first ?p (?css @ js ''\<newline></head>'') ?W"
    using wrapped_complete [of ?css h] by (simp add: injectStyles_def)
  also have "\<dots> = replace_first ?p (?css @ js ''\<newline></head>'') (?xs @ ?p @ ?zs)"
    by (simp only: W)
  also have "\<dots> = ?xs @ (?css @ js ''\<newline></head>'') @ ?zs"
    using p none plain by (rule replace_first_at)
  also have "\<dots> = shellHead @ ?css @ [10] @ ?css @ shellBody @ h @ shellEnd"
    by (simp add: sb)
  finally show ?thesis .
qed

section \<open>Running the style injection twice\<close>

text \<open>
  The opening tags \<open><html\<close> and \<open><style>\<close> are counted in the wrapped document
  and in the document that the second run gives.
\<close>

lemma wrapped_counts:
  "countOccurrences (js ''<html'') (shellHead @ generateCSS config @ shellBody @ h @ shellEnd)
     = 1 + countOccurrences (js ''<html'') h"
  "countOccurrences (js ''<style>'') (shellHead @ generateCSS config @ shellBody @ h @ shellEnd)
     = 1 + countOccurrences (js ''<style>'') h"
  by (simp_all add: htmlTag_shellHead htmlTag_generateCSS htmlTag_shellBody
      htmlTag_fragment_shellEnd styleTag_shellHead styleTag_generateCSS styleTag_shellBody
      styleTag_fragment_shellEnd)

lemma newline_no_tag:
  "countOccurrences (js ''<html'') ([10] @ ys) = countOccurrences (js ''<html'') ys"
  "countOccurrences (js ''<style>'') ([10] @ ys) = countOccurrences (js ''<style>'') ys"
  by (simp_all add: js_def)

lemma rewrapped_counts:
  "countOccurrences (js ''<html'')
     (shellHead @ generateCSS config @ [10] @ generateCSS config @ shellBody @ h @ shellEnd)
     = 1 + countOccurrences (js ''<html'') h"
  "countOccurrences (js ''<style>'')
     (shellHead @ generateCSS config @ [10] @ generateCSS config @ shellBody @ h @ shellEnd)
     = 2 + countOccurrences (js ''<style>'') h"
  by (simp_all only: htmlTag_shellHead htmlTag_generateCSS htmlTag_shellBody newline_no_tag
      htmlTag_fragment_shellEnd styleTag_shellHead styleTag_generateCSS styleTag_shellBody
      styleTag_fragment_shellEnd)

section \<open>Running the document shell of the extension twice\<close>

lemma count_step_other:
  "c \<noteq> a \<Longrightarrow> countOccurrences (a # p) (c # cs) = countOccurrences (a # p) cs"
  by simp

lemma count_step_same:
  "countOccurrences (a # p) (a # cs)
     = (if prefix p cs then 1 else 0) + countOccurrences (a # p) cs"
  by simp

lemmas count_steps = count_step_other count_step_same

lemma injectedStyle_parts_no_dollar [simp]:
  "36 \<notin> set injectedStyle_part1" "36 \<notin> set injectedStyle_part2"
  by (simp_all add: injectedStyle_part1_def injectedStyle_part2_def js_def)

lemma injectedStyle_no_dollar: "36 \<notin> set (injectedStyle settings)"
  by (simp add: injectedStyle_def)

lemma documentShell_part1_tags:
  "hasHTML documentShell_part1" "hasHead documentShell_part1"
  by (simp_all add: hasHTML_def hasHead_def documentShell_part1_def js_def lits_def
      match_here_def canonicalize_def)

lemma documentShell_part3_tags: "hasBody documentShell_part3"
  by (simp add: hasBody_def documentShell_part3_def js_def lits_def match_here_def
      canonicalize_def)

lemma documentShell_complete:
  "hasHTML (documentShell_part1 @ m @ documentShell_part2 @ documentShell_part3 @ h @ documentShell_part4)
   \<and> hasHead (documentShell_part1 @ m @ documentShell_part2 @ documentShell_part3 @ h @ documentShell_part4)
   \<and> hasBody (documentShell_part1 @ m @ documentShell_part2 @ documentShell_part3 @ h @ documentShell_part4)"
proof (intro conjI)
  show "hasHTML (documentShell_part1 @ m @ documentShell_part2 @ documentShell_part3 @ h
      @ documentShell_part4)"
    using documentShell_part1_tags(1) unfolding hasHTML_def by (rule regex_test_append_left)
  show "hasHead (documentShell_part1 @ m @ documentShell_part2 @ documentShell_part3 @ h
      @ documentShell_part4)"
    using documentShell_part1_tags(2) unfolding hasHead_def by (rule regex_test_append_left)
  have "regex_test (lits ''<body'' @ [Star (NoneOf (js ''>''))] @ lits ''>'')
          (documentShell_part3 @ h @ documentShell_part4)"
    using documentShell_part3_tags unfolding hasBody_def by (rule regex_test_append_left)
  then have "regex_test (lits ''<body'' @ [Star (NoneOf (js ''>''))] @ lits ''>'')
          ((documentShell_part1 @ m @ documentShell_part2) @ documentShell_part3 @ h
            @ documentShell_part4)"
    by (rule regex_test_append_right)
  then show "hasBody (documentShell_part1 @ m @ documentShell_part2 @ documentShell_part3 @ h
      @ documentShell_part4)"
    by (simp add: hasBody_def)
qed

lemma closeHead_documentShell:
  "countOccurrences (js ''</head>'') (documentShell_part1 @ ys)
     = countOccurrences (js ''</head>'') ys"
  "countOccurrences (js ''</head>'') (documentShell_part2 @ ys)
     = countOccurrences (js ''</head>'') ys"
  by (simp_all add: documentShell_part1_def documentShell_part2_def js_def count_steps
      del: countOccurrences.simps)

lemma styleTag_documentShell:
  "countOccurrences (js ''<style>'') (documentShell_part1 @ ys)
     = 1 + countOccurrences (js ''<style>'') ys"
  "countOccurrences (js ''<style>'') (documentShell_part2 @ ys)
     = countOccurrences (js ''<style>'') ys"
  "countOccurrences (js ''<style>'') (documentShell_part3 @ ys)
     = countOccurrences (js ''<style>'') ys"
  "countOccurrences (js ''<style>'') (injectedStyle_part1 @ ys)
     = 1 + countOccurrences (js ''<style>'') ys"
  "countOccurrences (js ''<style>'') (injectedStyle_part2 @ ys)
     = countOccurrences (js ''<style>'') ys"
  by (simp_all add: documentShell_part1_def documentShell_part2_def documentShell_part3_def
      injectedStyle_part1_def injectedStyle_part2_def js_def count_steps
      del: countOccurrences.simps)

lemma htmlTag_documentShell:
  "countOccurrences (js ''<html'') (documentShell_part1 @ ys)
     = 1 + countOccurrences (js ''<html'') ys"
  "countOccurrences (js ''<html'') (documentShell_part2 @ ys)
     = countOccurrences (js ''<html'') ys"
  "countOccurrences (js ''<html'') (documentShell_part3 @ ys)
     = countOccurrences (js ''<html'') ys"
  "countOccurrences (js ''<html'') (injectedStyle_part1 @ ys)
     = countOccurrences (js ''<html'') ys"
  "countOccurrences (js ''<html'') (injectedStyle_part2 @ ys)
     = countOccurrences (js ''<html'') ys"
  by (simp_all add: documentShell_part1_def documentShell_part2_def documentShell_part3_def
      injectedStyle_part1_def injectedStyle_part2_def js_def count_steps
      del: countOccurrences.simps)

lemma documentShell_part4_newline: "documentShell_part4 = 10 # js ''</body>\<newline></html>''"
  by (simp add: documentShell_part4_def js_def)

lemma fragment_documentShell_part4:
  "countOccurrences (js ''<style>'') (h @ documentShell_part4)
     = countOccurrences (js ''<style>'') h"
  "countOccurrences (js ''<html'') (h @ documentShell_part4)
     = countOccurrences (js ''<html'') h"
  using styleTag_fragment_shellEnd [of h] htmlTag_fragment_shellEnd [of h]
  by (simp_all add: documentShell_part4_newline shellEnd_newline)

lemma numberToString_counts:
  "countOccurrences (js ''<style>'') (numberToString n @ ys) = countOccurrences (js ''<style>'') ys"
  "countOccurrences (js ''<html'') (numberToString n @ ys) = countOccurrences (js ''<html'') ys"
  "countOccurrences (js ''</head>'') (numberToString n @ ys) = countOccurrences (js ''</head>'') ys"
  by (simp_all add: countOccurrences_skip_tag)

lemma documentShell_part3_closeHead:
  "documentShell_part3 = js ''</head>'' @ js ''\<newline><body>\<newline>    ''"
  by (simp add: documentShell_part3_def js_def)

lemma createCompleteHTMLDocument_partial:
  "\<not> (hasHTML h \<and> hasHead h \<and> hasBody h) \<Longrightarrow>
   createCompleteHTMLDocument h settings
     = documentShell_part1 @ numberToString (margin settings) @ documentShell_part2
       @ documentShell_part3 @ h @ documentShell_part4"
  by (auto simp: createCompleteHTMLDocument_def)

lemma createCompleteHTMLDocument_wrapped:
  "createCompleteHTMLDocument
     (documentShell_part1 @ numberToString (margin settings) @ documentShell_part2
       @ documentShell_part3 @ h @ documentShell_part4) settings
   = documentShell_part1 @ numberToString (margin settings) @ documentShell_part2
       @ injectedStyle settings @ js ''\<newline><body>\<newline>    '' @ h @ documentShell_part4"
proof -
  let ?p = "js ''</head>''"
  let ?m = "numberToString (margin settings)"
  let ?xs = "documentShell_part1 @ ?m @ documentShell_part2"
  let ?zs = "js ''\<newline><body>\<newline>    '' @ h @ documentShell_part4"
  let ?W = "documentShell_part1 @ ?m @ documentShell_part2 @ documentShell_part3 @ h
      @ documentShell_part4"
  have W: "?W = ?xs @ ?p @ ?zs" by (simp add: documentShell_part3_closeHead)
  have p: "?p \<noteq> []" by (simp add: js_def)
  have bl: "butlast ?p = js ''</head''" by (simp add: js_def)
  have "countOccurrences ?p (js ''</head'') = 0" by (simp add: js_def)
  then have none: "countOccurrences ?p (?xs @ butlast ?p) = 0"
    by (simp add: bl closeHead_documentShell numberToString_counts)
  have "createCompleteHTMLDocument ?W settings = replace_first ?p (injectedStyle settings) ?W"
    using documentShell_complete [of ?m h] by (simp add: createCompleteHTMLDocument_def)
  also have "\<dots> = replace_first ?p (injectedStyle settings) (?xs @ ?p @ ?zs)"
    by (simp only: W)
  also have "\<dots> = ?xs @ injectedStyle settings @ ?zs"
    using p none injectedStyle_no_dollar by (rule replace_first_at)
  finally show ?thesis by simp
qed

lemma body_tail_counts:
  "countOccurrences (js ''<style>'') (js ''\<newline><body>\<newline>    '' @ ys)
     = countOccurrences (js ''<style>'') ys"
  "countOccurrences (js ''<html'') (js ''\<newline><body>\<newline>    '' @ ys)
     = countOccurrences (js ''<html'') ys"
  by (simp_all add: js_def)

lemma documentShell_counts:
  "countOccurrences (js ''<html'')
     (documentShell_part1 @ numberToString n @ documentShell_part2 @ documentShell_part3 @ h
       @ documentShell_part4) = 1 + countOccurrences (js ''<html'') h"
  "countOccurrences (js ''<style>'')
     (documentShell_part1 @ numberToString n @ documentShell_part2 @ documentShell_part3 @ h
       @ documentShell_part4) = 1 + countOccurrences (js ''<style>'') h"
  by (simp_all only: htmlTag_documentShell styleTag_documentShell numberToString_counts
      fragment_documentShell_part4)

lemma documentShell_twice_counts:
  "countOccurrences (js ''<html'')
     (documentShell_part1 @ numberToString n @ documentShell_part2 @ injectedStyle settings
       @ js ''\<newline><body>\<newline>    '' @ h @ documentShell_part4)
     = 1 + countOccurrences (js ''<html'') h"
  "countOccurrences (js ''<style>'')
     (documentShell_part1 @ numberToString n @ documentShell_part2 @ injectedStyle settings
       @ js ''\<newline><body>\<newline>    '' @ h @ documentShell_part4)
     = 2 + countOccurrences (js ''<style>'') h"
  by (simp_all only: injectedStyle_def append_assoc htmlTag_documentShell
      styleTag_documentShell numberToString_counts body_tail_counts
      fragment_documentShell_part4)

text \<open>
  Claim C2 as amended. A fragment (a string that lacks one of the three tags) is wrapped
  by the first run, with one style block. The second run finds the three tags of the
  shell, so it does not wrap again: the document keeps its one shell and gets no further
  \<open><html\<close> tag. But nothing records that a style block was already put in, and the
  second run puts another one before \<open></head>\<close>: the output holds two style blocks.
  This holds for the step of the standalone module (\<open>injectStyles\<close>, which puts in
  a second copy of the same block) and for the step of the browser extension
  (\<open>createCompleteHTMLDocument\<close>, which puts its short block behind the one of its
  shell).
\<close>

theorem injectStyles_twice_adds_style_block:
  assumes "\<not> (hasHTML h \<and> hasHead h \<and> hasBody h)"
  shows "injectStyles (injectStyles h config) config
       = shellHead @ generateCSS config @ [10] @ generateCSS config @ shellBody @ h @ shellEnd
   \<and> countOccurrences (js ''<html'') (injectStyles h config)
       = 1 + countOccurrences (js ''<html'') h
   \<and> countOccurrences (js ''<html'') (injectStyles (injectStyles h config) config)
       = 1 + countOccurrences (js ''<html'') h
   \<and> countOccurrences (js ''<style>'') (injectStyles h config)
       = 1 + countOccurrences (js ''<style>'') h
   \<and> countOccurrences (js ''<style>'') (injectStyles (injectStyles h config) config)
       = 2 + countOccurrences (js ''<style>'') h
   \<and> createCompleteHTMLDocument (createCompleteHTMLDocument h settings) settings
       = documentShell_part1 @ numberToString (margin settings) @ documentShell_part2
         @ injectedStyle settings @ js ''\<newline><body>\<newline>    '' @ h @ documentShell_part4
   \<and> countOccurrences (js ''<html'') (createCompleteHTMLDocument h settings)
       = 1 + countOccurrences (js ''<html'') h
   \<and> countOccurrences (js ''<html'')
        (createCompleteHTMLDocument (createCompleteHTMLDocument h settings) settings)
       = 1 + countOccurrences (js ''<html'') h
   \<and> countOccurrences (js ''<style>'') (createCompleteHTMLDocument h settings)
       = 1 + countOccurrences (js ''<style>'') h
   \<and> countOccurrences (js ''<style>'')
        (createCompleteHTMLDocument (createCompleteHTMLDocument h settings) settings)
       = 2 + countOccurrences (js ''<style>'') h"
  by (simp only: injectStyles_partial [OF assms] injectStyles_wrapped wrapped_counts
      rewrapped_counts createCompleteHTMLDocument_partial [OF assms]
      createCompleteHTMLDocument_wrapped documentShell_counts documentShell_twice_counts
      simp_thms)

text \<open>
  Claim C2 (a second run on wrapped output yields exactly one \<open><html>\<close> root and
  exactly one injected style block). The fragment \<open><p>Hi</p>\<close> with the default
  settings: after the first run of the module's step the document has the three tags and
  one style block, after the second run it has two style blocks; so it has after two runs
  of the extension's step.
\<close>

lemma fragment_p:
  \<open>\<not> hasHTML (js ''<p>Hi</p>'')\<close>
  \<open>countOccurrences (js ''<style>'') (js ''<p>Hi</p>'') = 0\<close>
  \<open>countOccurrences (js ''<html'') (js ''<p>Hi</p>'') = 0\<close>
  by (simp_all add: hasHTML_def lits_def js_def match_here_def canonicalize_def)

theorem injectStyles_twice_two_style_blocks:
  \<open>hasHTML (injectStyles (js ''<p>Hi</p>'')
       \<lparr>pageSize = js ''A4'', orientation = js ''portrait'', margin = 10,
        includeFonts = True, renderCodeBlocks = True\<rparr>)
   \<and> hasHead (injectStyles (js ''<p>Hi</p>'')
       \<lparr>pageSize = js ''A4'', orientation = js ''portrait'', margin = 10,
        includeFonts = True, renderCodeBlocks = True\<rparr>)
   \<and> hasBody (injectStyles (js ''<p>Hi</p>'')
       \<lparr>pageSize = js ''A4'', orientation = js ''portrait'', margin = 10,
        includeFonts = True, renderCodeBlocks = True\<rparr>)
   \<and> countOccurrences (js ''<style>'') (injectStyles (js ''<p>Hi</p>'')
       \<lparr>pageSize = js ''A4'', orientation = js ''portrait'', margin = 10,
        includeFonts = True, renderCodeBlocks = True\<rparr>) = 1
   \<and> countOccurrences (js ''<style>'')
       (injectStyles (injectStyles (js ''<p>Hi</p>'')
         \<lparr>pageSize = js ''A4'', orientation = js ''portrait'', margin = 10,
          includeFonts = True, renderCodeBlocks = True\<rparr>)
         \<lparr>pageSize = js ''A4'', orientation = js ''portrait'', margin = 10,
          includeFonts = True, renderCodeBlocks = True\<rparr>) = 2
   \<and> countOccurrences (js ''<style>'')
       (createCompleteHTMLDocument (createCompleteHTMLDocument (js ''<p>Hi</p>'')
         \<lparr>pageSize = js ''A4'', orientation = js ''portrait'', margin = 10,
          filename = js ''document.pdf''\<rparr>)
         \<lparr>pageSize = js ''A4'', orientation = js ''portrait'', margin = 10,
          filename = js ''document.pdf''\<rparr>) = 2\<close>
proof -
  have part: \<open>\<not> (hasHTML (js ''<p>Hi</p>'') \<and> hasHead (js ''<p>Hi</p>'')
      \<and> hasBody (js ''<p>Hi</p>''))\<close>
    using fragment_p(1) by simp
  show ?thesis
    by (simp only: injectStyles_partial [OF part] injectStyles_wrapped wrapped_counts
        rewrapped_counts wrapped_complete createCompleteHTMLDocument_partial [OF part]
        createCompleteHTMLDocument_wrapped documentShell_twice_counts fragment_p simp_thms)
      simp
qed

text \<open>A heading as the fragment, without fonts and with a margin of 20.\<close>

lemma fragment_h1:
  \<open>\<not> hasHTML (js ''<h1>Title</h1>'')\<close>
  \<open>countOccurrences (js ''<style>'') (js ''<h1>Title</h1>'') = 0\<close>
  \<open>countOccurrences (js ''<html'') (js ''<h1>Title</h1>'') = 0\<close>
  by (simp_all add: hasHTML_def lits_def js_def match_here_def canonicalize_def)

theorem injectStyles_twice_adds_style_block_witness:
  \<open>countOccurrences (js ''<html'')
       (injectStyles (injectStyles (js ''<h1>Title</h1>'')
         \<lparr>pageSize = js ''Letter'', orientation = js ''landscape'', margin = 20,
          includeFonts = False, renderCodeBlocks = False\<rparr>)
         \<lparr>pageSize = js ''Letter'', orientation = js ''landscape'', margin = 20,
          includeFonts = False, renderCodeBlocks = False\<rparr>) = 1
   \<and> countOccurrences (js ''<style>'')
       (injectStyles (injectStyles (js ''<h1>Title</h1>'')
         \<lparr>pageSize = js ''Letter'', orientation = js ''landscape'', margin = 20,
          includeFonts = False, renderCodeBlocks = False\<rparr>)
         \<lparr>pageSize = js ''Letter'', orientation = js ''landscape'', margin = 20,
          includeFonts = False, renderCodeBlocks = False\<rparr>) = 2
   \<and> countOccurrences (js ''<html'')
       (createCompleteHTMLDocument (createCompleteHTMLDocument (js ''<h1>Title</h1>'')
         \<lparr>pageSize = js ''A4'', orientation = js ''portrait'', margin = 10,
          filename = js ''document.pdf''\<rparr>)
         \<lparr>pageSize = js ''A4'', orientation = js ''portrait'', margin = 10,
          filename = js ''document.pdf''\<rparr>) = 1
   \<and> countOccurrences (js ''<style>'')
       (createCompleteHTMLDocument (createCompleteHTMLDocument (js ''<h1>Title</h1>'')
         \<lparr>pageSize = js ''A4'', orientation = js ''portrait'', margin = 10,
          filename = js ''document.pdf''\<rparr>)
         \<lparr>pageSize = js ''A4'', orientation = js ''portrait'', margin = 10,
          filename = js ''document.pdf''\<rparr>) = 2\<close>
proof -
  let ?h = \<open>js ''<h1>Title</h1>''\<close>
  let ?c = \<open>\<lparr>pageSize = js ''Letter'', orientation = js ''landscape'', margin = 20,
          includeFonts = False, renderCodeBlocks = False\<rparr>\<close>
  let ?s = \<open>\<lparr>pageSize = js ''A4'', orientation = js ''portrait'', margin = 10,
          filename = js ''document.pdf''\<rparr>\<close>
  have part: "\<not> (hasHTML ?h \<and> hasHead ?h \<and> hasBody ?h)"
    using fragment_h1(1) by simp
  note t = injectStyles_twice_adds_style_block [OF part, of ?c ?s]
  from t have "countOccurrences (js ''<html'') (injectStyles (injectStyles ?h ?c) ?c)
      = 1 + countOccurrences (js ''<html'') ?h" by blast
  moreover from t have "countOccurrences (js ''<style>'') (injectStyles (injectStyles ?h ?c) ?c)
      = 2 + countOccurrences (js ''<style>'') ?h" by blast
  moreover from t have "countOccurrences (js ''<html'')
      (createCompleteHTMLDocument (createCompleteHTMLDocument ?h ?s) ?s)
      = 1 + countOccurrences (js ''<html'') ?h" by blast
  moreover from t have "countOccurrences (js ''<style>'')
      (createCompleteHTMLDocument (createCompleteHTMLDocument ?h ?s) ?s)
      = 2 + countOccurrences (js ''<style>'') ?h" by blast
  ultimately show ?thesis by (simp only: fragment_h1) simp
qed

end
